theory Spec2Isabelle
  imports Complex_Main "HOL-Library.Word" "HOL-Library.Sublist" "HOL-Library.AList"
begin

section \<open>Value types of the presentation library\<close>

text \<open>
  The program stores positions, sizes and velocities in the presentation library's value
  types \<^verbatim>\<open>sf::Vector2f\<close>, \<^verbatim>\<open>sf::FloatRect\<close>, \<^verbatim>\<open>sf::IntRect\<close>, \<^verbatim>\<open>sf::Color\<close> and
  \<^verbatim>\<open>sf::Time\<close>. A C++ \<^verbatim>\<open>float\<close> is modelled by a real number: all arithmetic below is
  exact, and the rounding of IEEE single precision is outside the model. An operation
  whose IEEE result is not a finite number (a division by zero) or whose result the
  language leaves undefined is a \<open>fault\<close> value of the model.
\<close>

datatype fault =
    NullDereference       \<comment> \<open>\<^verbatim>\<open>p->field\<close> with \<^verbatim>\<open>p == nullptr\<close> (or no live object)\<close>
  | NotFinite             \<comment> \<open>a float division by zero: IEEE infinity or NaN\<close>
  | UndefinedConversion   \<comment> \<open>float to \<^verbatim>\<open>sf::Uint8\<close> with the truncated value outside 0..255\<close>
  | OutOfBounds           \<comment> \<open>unchecked \<^verbatim>\<open>operator[]\<close> past the end\<close>

datatype Vector2f = Vector2f (vx: real) (vy: real)

datatype FloatRect = FloatRect (rleft: real) (rtop: real) (rwidth: real) (rheight: real)

datatype IntRect = IntRect (ileft: int) (itop: int) (iwidth: int) (iheight: int)

datatype Color = Color (red: "8 word") (green: "8 word") (blue: "8 word") (alpha: "8 word")

definition Color_Red :: Color where "Color_Red = Color 255 0 0 255"
definition Color_Green :: Color where "Color_Green = Color 0 255 0 255"
definition Color_Blue :: Color where "Color_Blue = Color 0 0 255 255"
definition Color_Yellow :: Color where "Color_Yellow = Color 255 255 0 255"
definition Color_White :: Color where "Color_White = Color 255 255 255 255"
definition Color_default :: Color where "Color_default = Color 0 0 0 255"

text \<open>
  \<^verbatim>\<open>sf::Time\<close> is a signed count of microseconds; \<^verbatim>\<open>asSeconds()\<close> divides it by one
  million, \<^verbatim>\<open>sf::seconds\<close> truncates the product back to microseconds.
\<close>

definition trunc_toward_zero :: "real \<Rightarrow> int" where
  "trunc_toward_zero r = (if 0 \<le> r then \<lfloor>r\<rfloor> else \<lceil>r\<rceil>)"

definition asSeconds :: "int \<Rightarrow> real" where
  "asSeconds t = real_of_int t / 1000000"

definition seconds :: "real \<Rightarrow> int" where
  "seconds s = trunc_toward_zero (s * 1000000)"

definition milliseconds :: "int \<Rightarrow> int" where
  "milliseconds n = n * 1000"

text \<open>
  \<^verbatim>\<open>sf::Rect<T>::intersects\<close>: the library normalises rectangles of negative size, then
  asks for an intersection of strictly positive area.
\<close>

definition intersects :: "FloatRect \<Rightarrow> FloatRect \<Rightarrow> bool" where
  "intersects r1 r2 =
     (let r1MinX = min (rleft r1) (rleft r1 + rwidth r1);
          r1MaxX = max (rleft r1) (rleft r1 + rwidth r1);
          r1MinY = min (rtop r1) (rtop r1 + rheight r1);
          r1MaxY = max (rtop r1) (rtop r1 + rheight r1);
          r2MinX = min (rleft r2) (rleft r2 + rwidth r2);
          r2MaxX = max (rleft r2) (rleft r2 + rwidth r2);
          r2MinY = min (rtop r2) (rtop r2 + rheight r2);
          r2MaxY = max (rtop r2) (rtop r2 + rheight r2);
          interLeft = max r1MinX r2MinX;
          interTop = max r1MinY r2MinY;
          interRight = min r1MaxX r2MaxX;
          interBottom = min r1MaxY r2MaxY
      in interLeft < interRight \<and> interTop < interBottom)"

text \<open>
  A sprite, as far as the entity code uses it: the position written by the
  synchronisation pass and the texture rectangle (the visual frame). Entity sprites keep
  the default origin, scale and rotation, so the global bounds are the local bounds
  \<open>(0, 0, |width|, |height|)\<close> moved to the position.
\<close>

datatype Sprite = Sprite (position: Vector2f) (textureRect: IntRect)

definition getGlobalBounds :: "Sprite \<Rightarrow> FloatRect" where
  "getGlobalBounds s =
     FloatRect (vx (position s)) (vy (position s))
       (real_of_int \<bar>iwidth (textureRect s)\<bar>) (real_of_int \<bar>iheight (textureRect s)\<bar>)"

datatype Vertex = Vertex (vposition: Vector2f) (vcolor: Color)

section \<open>Components and entities\<close>

datatype Particle = Particle (velocity: Vector2f) (lifetime: int)

text \<open>
  The component classes of \<^verbatim>\<open>main.cpp\<close>, one constructor per class, with the fields
  in declaration order. \<open>PlainComponent\<close> is an object of the base class
  \<^verbatim>\<open>kantan::Component\<close> itself, which carries only its name.
\<close>

datatype Component =
    DeletionMarkerComponent bool                 \<comment> \<open>toDelete\<close>
  | HitboxComponent FloatRect bool               \<comment> \<open>hitbox, isBlocking\<close>
  | SpriteComponent Sprite                       \<comment> \<open>sprite\<close>
  | MovementComponent Vector2f                   \<comment> \<open>velocity\<close>
  | AnimationComponent "IntRect list" nat int nat
      \<comment> \<open>frames, currentFrame, lastFrame, fps\<close>
  | LifeComponent int bool                       \<comment> \<open>lifepoints, alive\<close>
  | ParticleComponent Color Vector2f "Particle list" "Vertex list" int
      \<comment> \<open>color, center, m_particles, m_vertices, lifetime\<close>
  | PlainComponent string

text \<open>The name each constructor passes to \<^verbatim>\<open>kantan::Component(std::string name)\<close>.\<close>

fun getName :: "Component \<Rightarrow> string" where
  "getName (DeletionMarkerComponent _) = ''DeletionMarker''"
| "getName (HitboxComponent _ _) = ''Hitbox''"
| "getName (SpriteComponent _) = ''Sprite''"
| "getName (MovementComponent _) = ''Movement''"
| "getName (AnimationComponent _ _ _ _) = ''Animation''"
| "getName (LifeComponent _ _) = ''Life''"
| "getName (ParticleComponent _ _ _ _ _) = ''Particle''"
| "getName (PlainComponent n) = n"

text \<open>
  The dynamic type of a component object, and the class a caller names as the template
  argument of \<^verbatim>\<open>getComponent<T>\<close>. Every component class derives directly from
  \<^verbatim>\<open>kantan::Component\<close>, so \<^verbatim>\<open>dynamic_cast<T*>\<close> succeeds exactly when \<open>T\<close> is the base
  class or the object's own class.
\<close>

datatype ComponentClass =
    Component_class | DeletionMarker_class | Hitbox_class | Sprite_class
  | Movement_class | Animation_class | Life_class | Particle_class

fun class_of :: "Component \<Rightarrow> ComponentClass" where
  "class_of (DeletionMarkerComponent _) = DeletionMarker_class"
| "class_of (HitboxComponent _ _) = Hitbox_class"
| "class_of (SpriteComponent _) = Sprite_class"
| "class_of (MovementComponent _) = Movement_class"
| "class_of (AnimationComponent _ _ _ _) = Animation_class"
| "class_of (LifeComponent _ _) = Life_class"
| "class_of (ParticleComponent _ _ _ _ _) = Particle_class"
| "class_of (PlainComponent _) = Component_class"

definition derived_from :: "ComponentClass \<Rightarrow> ComponentClass \<Rightarrow> bool" where
  "derived_from dyn T = (T = Component_class \<or> dyn = T)"

text \<open>
  Objects live in a store addressed by natural numbers: a \<^verbatim>\<open>Component*\<close> is an index
  into the list of component objects, an \<^verbatim>\<open>Entity*\<close> an index into the list of entity
  objects. \<^verbatim>\<open>new\<close> appends, and the modelled code never frees an object before the world
  is destroyed, so an address stays valid once handed out. A null pointer is \<open>None\<close>.
\<close>

type_synonym cptr = nat
type_synonym eptr = nat

text \<open>
  \<^verbatim>\<open>kantan::Entity\<close>: identifier, category name and the \<^verbatim>\<open>unordered_map\<close> from component
  name to component pointer (\<^verbatim>\<open>m_components\<close>, here \<open>components_map\<close>: the world has a
  member of the same name), kept as an association list with one entry per key.
\<close>

datatype Entity = Entity (m_id: nat) (m_name: string) (components_map: "(string \<times> cptr) list")

definition dynamic_cast :: "ComponentClass \<Rightarrow> Component list \<Rightarrow> cptr \<Rightarrow> cptr option" where
  "dynamic_cast T heap p =
     (if p < length heap \<and> derived_from (class_of (heap ! p)) T then Some p else None)"

text \<open>
  \<^verbatim>\<open>Entity::getComponent<T>(name)\<close> of \<^verbatim>\<open>Entity.hpp\<close>: \<^verbatim>\<open>find\<close> the name, then
  \<^verbatim>\<open>dynamic_cast<T*>\<close> the stored pointer, or return \<^verbatim>\<open>nullptr\<close>.
\<close>

definition getComponent :: "ComponentClass \<Rightarrow> string \<Rightarrow> Entity \<Rightarrow> Component list \<Rightarrow> cptr option" where
  "getComponent T name e heap =
     (case map_of (components_map e) name of
        Some p \<Rightarrow> dynamic_cast T heap p
      | None \<Rightarrow> None)"

text \<open>
  Modelled from the spec: the member functions of \<^verbatim>\<open>kantan::Entity\<close> that are defined in
  \<^verbatim>\<open>Entity.cpp\<close>, which is not among the sources. \<open>hasComponent\<close> is the presence of the
  name; \<open>addComponent\<close> stores the component under its own name, replacing the slot of
  that name; \<open>removeComponent\<close> erases the name; \<open>getAllComponents\<close> is the whole map.
\<close>

definition hasComponent :: "Entity \<Rightarrow> string \<Rightarrow> bool" where
  "hasComponent e name = (map_of (components_map e) name \<noteq> None)"

definition addComponent :: "Component list \<Rightarrow> cptr \<Rightarrow> Entity \<Rightarrow> Entity" where
  "addComponent heap c e =
     Entity (m_id e) (m_name e) (AList.update (getName (heap ! c)) c (components_map e))"

definition removeComponent :: "string \<Rightarrow> Entity \<Rightarrow> Entity" where
  "removeComponent name e = Entity (m_id e) (m_name e) (AList.delete name (components_map e))"

definition getAllComponents :: "Entity \<Rightarrow> (string \<times> cptr) list" where
  "getAllComponents e = components_map e"

section \<open>Events and the world\<close>

text \<open>
  Modelled from the spec: \<^verbatim>\<open>kantan::Event\<close>, \<^verbatim>\<open>kantan::EventData\<close> and
  \<^verbatim>\<open>kantan::pollEvent\<close> are not among the sources. An event is an integer type tag with
  at most one attached payload; the queue is first in, first out, and \<open>pollEvent\<close>
  removes and returns its head. The two payload classes are those of \<^verbatim>\<open>main.cpp\<close>.
\<close>

datatype EventData =
    ColoredBallShotData Color Vector2f   \<comment> \<open>color, center\<close>
  | EntityDeathData eptr                 \<comment> \<open>entity\<close>

datatype Event = Event (getEventType: nat) (eventData: "EventData option")

definition ColoredBallShot :: nat where "ColoredBallShot = 1"
definition EntityDeath :: nat where "EntityDeath = 2"
definition PlayerHit :: nat where "PlayerHit = 3"

datatype Sound = SugoiSound | HitSound | HitGoodBallSound | HitWrongBallSound | ChangeAffinitySound

text \<open>
  The state a tick works on: the two object stores, the members of \<^verbatim>\<open>World\<close> that the
  systems and the event handlers touch, the collision records of the physics and the
  collision-effects systems, the static counter of \<^verbatim>\<open>kantan::Entity\<close>, the sounds started
  so far, and the position in the sequence of \<^verbatim>\<open>std::rand()\<close> results.
\<close>

record World =
  objects :: "Component list"
  entity_objects :: "Entity list"
  m_lastid :: nat
  m_entities :: "eptr list"
  m_components :: "cptr list"
  m_eventQueue :: "Event list"
  physics_collisions :: "(eptr \<times> eptr) list"
  collider_collisions :: "(eptr \<times> eptr) list"
  m_player :: eptr
  m_isRunning :: bool
  m_colorAffinity :: Color
  m_score :: int
  m_combo :: int
  m_lastSugoiDisplay :: int
  m_lastAffinityChange :: int
  played :: "Sound list"
  rand_pos :: nat

text \<open>
  The tunable globals of \<^verbatim>\<open>main.cpp\<close> that the modelled code reads, and the sequence
  of values \<^verbatim>\<open>std::rand()\<close> returns.
\<close>

record Constants =
  COMBO_MIN :: real
  SUGOI_COMBO :: int
  AFFINITY_CHANGE_INTERVAL :: real
  rand_values :: "nat \<Rightarrow> nat"

definition and_then :: "fault + 'a \<Rightarrow> ('a \<Rightarrow> fault + 'b) \<Rightarrow> fault + 'b" where
  "and_then m f = (case m of Inl e \<Rightarrow> Inl e | Inr v \<Rightarrow> f v)"

text \<open>
  A range-based \<^verbatim>\<open>for\<close> over a container that the body does not change: the body runs
  on each element in order, on the state its predecessor left, and a fault ends the loop.
\<close>

fun for_each :: "('a \<Rightarrow> 's \<Rightarrow> fault + 's) \<Rightarrow> 'a list \<Rightarrow> 's \<Rightarrow> fault + 's" where
  "for_each body [] s = Inr s"
| "for_each body (x # xs) s = and_then (body x s) (for_each body xs)"

text \<open>Dereferencing: an entity pointer, and a typed component pointer for each class used.\<close>

definition entity_at :: "World \<Rightarrow> eptr \<Rightarrow> fault + Entity" where
  "entity_at w e =
     (if e < length (entity_objects w) then Inr (entity_objects w ! e) else Inl NullDereference)"

definition deref :: "World \<Rightarrow> cptr option \<Rightarrow> fault + Component" where
  "deref w p =
     (case p of
        None \<Rightarrow> Inl NullDereference
      | Some a \<Rightarrow> if a < length (objects w) then Inr (objects w ! a) else Inl NullDereference)"

definition store :: "cptr option \<Rightarrow> Component \<Rightarrow> World \<Rightarrow> fault + World" where
  "store p c w =
     (case p of
        None \<Rightarrow> Inl NullDereference
      | Some a \<Rightarrow>
          if a < length (objects w) then Inr (w\<lparr>objects := (objects w)[a := c]\<rparr>)
          else Inl NullDereference)"

fun as_Hitbox :: "Component \<Rightarrow> fault + (FloatRect \<times> bool)" where
  "as_Hitbox (HitboxComponent r b) = Inr (r, b)"
| "as_Hitbox _ = Inl NullDereference"

fun as_Movement :: "Component \<Rightarrow> fault + Vector2f" where
  "as_Movement (MovementComponent v) = Inr v"
| "as_Movement _ = Inl NullDereference"

fun as_Life :: "Component \<Rightarrow> fault + (int \<times> bool)" where
  "as_Life (LifeComponent n a) = Inr (n, a)"
| "as_Life _ = Inl NullDereference"

fun as_DeletionMarker :: "Component \<Rightarrow> fault + bool" where
  "as_DeletionMarker (DeletionMarkerComponent d) = Inr d"
| "as_DeletionMarker _ = Inl NullDereference"

fun as_Sprite :: "Component \<Rightarrow> fault + Sprite" where
  "as_Sprite (SpriteComponent s) = Inr s"
| "as_Sprite _ = Inl NullDereference"

section \<open>The physics system\<close>

text \<open>
  \<^verbatim>\<open>PhysicSystem::update\<close>. No system changes the entity vector it iterates over, so
  each loop over the entities is a \<open>for_each\<close> over the registry as it is when the loop
  starts. The body of the inner loop is split into its arithmetic
  (\<open>examine_pair\<close>, on the values read through the three component pointers) and its
  reads and writes of the store (\<open>check_pair\<close>).

  \<open>tentative\<close> is \<^verbatim>\<open>fstNewHitbox\<close>, the hitbox moved by velocity times elapsed seconds;
  \<open>correct_movement\<close> is the chain of four tests on the hitboxes before the movement,
  with the empty last branch.
\<close>

definition tentative :: "FloatRect \<Rightarrow> Vector2f \<Rightarrow> real \<Rightarrow> FloatRect" where
  "tentative h v dt =
     FloatRect (rleft h + vx v * dt) (rtop h + vy v * dt) (rwidth h) (rheight h)"

definition correct_movement :: "FloatRect \<Rightarrow> FloatRect \<Rightarrow> Vector2f \<Rightarrow> Vector2f" where
  "correct_movement fstH sndH movement =
     (if rtop fstH + rheight fstH \<le> rtop sndH
        then Vector2f (vx movement) (rtop sndH - (rtop fstH + rheight fstH))
      else if rtop fstH \<ge> rtop sndH + rheight sndH
        then Vector2f (vx movement) (- (rtop fstH - (rtop sndH + rheight sndH)))
      else if rleft fstH + rwidth fstH \<le> rleft sndH
        then Vector2f (rleft sndH - (rleft fstH + rwidth fstH)) (vy movement)
      else if rleft fstH \<ge> rleft sndH + rwidth sndH
        then Vector2f (- (rleft fstH - (rleft sndH + rwidth sndH))) (vy movement)
      else movement)"

definition displacement :: "real \<Rightarrow> FloatRect \<Rightarrow> FloatRect \<Rightarrow> Vector2f \<Rightarrow> Vector2f" where
  "displacement dt fstH sndH v =
     (let movement = Vector2f (vx v * dt) (vy v * dt)
      in if intersects (tentative fstH v dt) sndH
         then correct_movement fstH sndH movement
         else movement)"

text \<open>
  The quotient \<^verbatim>\<open>movement.x / elapsed.asSeconds()\<close>. The source divides without a test;
  with zero elapsed seconds the IEEE quotient is an infinity or NaN, which the model
  reports as \<open>NotFinite\<close>.
\<close>

definition float_div :: "real \<Rightarrow> real \<Rightarrow> fault + real" where
  "float_div a b = (if b = 0 then Inl NotFinite else Inr (a / b))"

text \<open>
  One examined pair: from the two hitboxes with their blocking flags and the current
  velocity to the velocity after the pair and whether the pair is recorded.
\<close>

definition examine_pair ::
  "real \<Rightarrow> FloatRect \<times> bool \<Rightarrow> FloatRect \<times> bool \<Rightarrow> Vector2f \<Rightarrow> fault + (Vector2f \<times> bool)" where
  "examine_pair dt fstHitbox sndHitbox v =
     (let movement = displacement dt (fst fstHitbox) (fst sndHitbox) v;
          recorded = intersects (tentative (fst fstHitbox) v dt) (fst sndHitbox)
      in if snd fstHitbox \<and> snd sndHitbox
         then and_then (float_div (vx movement) dt) (\<lambda>x'.
              and_then (float_div (vy movement) dt) (\<lambda>y'.
              Inr (Vector2f x' y', recorded)))
         else Inr (v, recorded))"

definition check_pair ::
  "int \<Rightarrow> eptr \<Rightarrow> cptr option \<Rightarrow> cptr option \<Rightarrow> eptr \<Rightarrow> World \<Rightarrow> fault + World" where
  "check_pair elapsed fstE fstHitbox fstMovement sndE w =
     (if fstE = sndE then Inr w
      else and_then (entity_at w sndE) (\<lambda>sndEntity.
        if \<not> hasComponent sndEntity ''Hitbox'' then Inr w
        else and_then (entity_at w fstE) (\<lambda>fstEntity.
          if \<not> hasComponent fstEntity ''Movement'' then Inr w
          else
            let sndHitbox = getComponent Hitbox_class ''Hitbox'' sndEntity (objects w)
            in and_then (and_then (deref w fstHitbox) as_Hitbox) (\<lambda>fh.
               and_then (and_then (deref w fstMovement) as_Movement) (\<lambda>v.
               and_then (and_then (deref w sndHitbox) as_Hitbox) (\<lambda>sh.
               and_then (examine_pair (asSeconds elapsed) fh sh v) (\<lambda>(v', recorded).
                 let w1 = (if recorded
                           then w\<lparr>physics_collisions := physics_collisions w @ [(fstE, sndE)]\<rparr>
                           else w)
                 in if snd fh \<and> snd sh then store fstMovement (MovementComponent v') w1
                    else Inr w1)))))))"

definition pair_loop ::
  "int \<Rightarrow> eptr \<Rightarrow> cptr option \<Rightarrow> cptr option \<Rightarrow> eptr list \<Rightarrow> World \<Rightarrow> fault + World" where
  "pair_loop elapsed fstE fstHitbox fstMovement entities w =
     for_each (check_pair elapsed fstE fstHitbox fstMovement) entities w"

text \<open>
  The body of the outer loop for one \<^verbatim>\<open>fst\<close>: the guard, the two lookups, the inner
  loop over all entities, and the application of the velocity to the hitbox.
\<close>

definition move_entity :: "int \<Rightarrow> eptr \<Rightarrow> World \<Rightarrow> fault + World" where
  "move_entity elapsed fstE w =
     and_then (entity_at w fstE) (\<lambda>fstEntity.
       if \<not> hasComponent fstEntity ''Hitbox'' \<or> \<not> hasComponent fstEntity ''Movement''
       then Inr w
       else
         let fstHitbox = getComponent Hitbox_class ''Hitbox'' fstEntity (objects w);
             fstMovement = getComponent Movement_class ''Movement'' fstEntity (objects w)
         in and_then (pair_loop elapsed fstE fstHitbox fstMovement (m_entities w) w) (\<lambda>w1.
            and_then (and_then (deref w1 fstHitbox) as_Hitbox) (\<lambda>fh.
            and_then (and_then (deref w1 fstMovement) as_Movement) (\<lambda>v.
              store fstHitbox
                (HitboxComponent (tentative (fst fh) v (asSeconds elapsed)) (snd fh)) w1))))"

definition PhysicSystem_update :: "int \<Rightarrow> World \<Rightarrow> fault + World" where
  "PhysicSystem_update elapsed w =
     for_each (move_entity elapsed) (m_entities w) (w\<lparr>physics_collisions := []\<rparr>)"

section \<open>The synchronisation system\<close>

text \<open>\<^verbatim>\<open>SynchronizeSystem::update\<close>: the hitbox position is copied onto the sprite.\<close>

definition synchronize_entity :: "eptr \<Rightarrow> World \<Rightarrow> fault + World" where
  "synchronize_entity e w =
     and_then (entity_at w e) (\<lambda>ent.
       if \<not> hasComponent ent ''Hitbox'' \<or> \<not> hasComponent ent ''Sprite'' then Inr w
       else
         let hitbox = getComponent Hitbox_class ''Hitbox'' ent (objects w);
             sprite = getComponent Sprite_class ''Sprite'' ent (objects w)
         in and_then (and_then (deref w sprite) as_Sprite) (\<lambda>s.
            and_then (and_then (deref w hitbox) as_Hitbox) (\<lambda>h.
              store sprite
                (SpriteComponent (Sprite (Vector2f (rleft (fst h)) (rtop (fst h))) (textureRect s)))
                w)))"

definition SynchronizeSystem_update :: "World \<Rightarrow> fault + World" where
  "SynchronizeSystem_update w = for_each synchronize_entity (m_entities w) w"

section \<open>The collision-effects system\<close>

text \<open>
  The writes \<^verbatim>\<open>e->getComponent<LifeComponent>("Life")->lifepoints = ...\<close> and
  \<^verbatim>\<open>e->getComponent<DeletionMarkerComponent>("DeletionMarker")->toDelete = true\<close>: the
  source looks the component up and writes through the result without a test.
\<close>

definition set_lifepoints :: "(int \<Rightarrow> int) \<Rightarrow> eptr \<Rightarrow> World \<Rightarrow> fault + World" where
  "set_lifepoints f e w =
     and_then (entity_at w e) (\<lambda>ent.
       let life = getComponent Life_class ''Life'' ent (objects w)
       in and_then (and_then (deref w life) as_Life) (\<lambda>l.
            store life (LifeComponent (f (fst l)) (snd l)) w))"

definition mark_toDelete :: "eptr \<Rightarrow> World \<Rightarrow> fault + World" where
  "mark_toDelete e w =
     and_then (entity_at w e) (\<lambda>ent.
       store (getComponent DeletionMarker_class ''DeletionMarker'' ent (objects w))
         (DeletionMarkerComponent True) w)"

definition push_event :: "Event \<Rightarrow> World \<Rightarrow> World" where
  "push_event ev w = w\<lparr>m_eventQueue := m_eventQueue w @ [ev]\<rparr>"

text \<open>The colour band of the ball's texture rectangle and the centre of its global bounds.\<close>

definition ball_color :: "Sprite \<Rightarrow> Color" where
  "ball_color s =
     (if ileft (textureRect s) < 64 then Color_Red
      else if ileft (textureRect s) < 64 * 2 then Color_Blue
      else if ileft (textureRect s) < 64 * 3 then Color_Green
      else Color_Yellow)"

definition ball_center :: "Sprite \<Rightarrow> Vector2f" where
  "ball_center s =
     Vector2f (rleft (getGlobalBounds s) + rwidth (getGlobalBounds s) / 2)
              (rtop (getGlobalBounds s) + rheight (getGlobalBounds s) / 2)"

text \<open>
  The body of the loop of \<^verbatim>\<open>CollisionEffectsSystem::update\<close> for one recorded pair:
  the chain of five tests on the two category names, and the three reactions its branches
  hold (the wall and the player reactions each appear twice, once per order).
\<close>

definition sakura_hits_ball :: "eptr \<Rightarrow> eptr \<Rightarrow> World \<Rightarrow> fault + World" where
  "sakura_hits_ball sakura ball w =
     and_then (set_lifepoints (\<lambda>_. 0) ball w) (\<lambda>w1.
     and_then (set_lifepoints (\<lambda>_. 0) sakura w1) (\<lambda>w2.
     and_then (mark_toDelete sakura w2) (\<lambda>w3.
     and_then (mark_toDelete ball w3) (\<lambda>w4.
     and_then (entity_at w4 ball) (\<lambda>second.
     and_then (and_then
                 (deref w4 (getComponent Sprite_class ''Sprite'' second (objects w4)))
                 as_Sprite) (\<lambda>sprite.
       Inr (push_event
              (Event ColoredBallShot
                 (Some (ColoredBallShotData (ball_color sprite) (ball_center sprite))))
              w4)))))))"

definition ball_hits_wall :: "eptr \<Rightarrow> World \<Rightarrow> fault + World" where
  "ball_hits_wall ball w =
     and_then (set_lifepoints (\<lambda>_. 0) ball w) (mark_toDelete ball)"

definition ball_hits_player :: "eptr \<Rightarrow> eptr \<Rightarrow> World \<Rightarrow> fault + World" where
  "ball_hits_player ball player w =
     and_then (set_lifepoints (\<lambda>_. 0) ball w) (\<lambda>w1.
     and_then (mark_toDelete ball w1) (\<lambda>w2.
     and_then (set_lifepoints (\<lambda>n. n - 1) player w2) (\<lambda>w3.
       Inr (push_event (Event PlayerHit None) w3))))"

definition apply_collision :: "eptr \<times> eptr \<Rightarrow> World \<Rightarrow> fault + World" where
  "apply_collision collision w =
     and_then (entity_at w (fst collision)) (\<lambda>first.
     and_then (entity_at w (snd collision)) (\<lambda>second.
       if m_name first = ''Sakura'' \<and> m_name second = ''Ball''
         then sakura_hits_ball (fst collision) (snd collision) w
       else if m_name first = ''Ball'' \<and> m_name second = ''Box''
         then ball_hits_wall (fst collision) w
       else if m_name first = ''Box'' \<and> m_name second = ''Ball''
         then ball_hits_wall (snd collision) w
       else if m_name first = ''Ball'' \<and> m_name second = ''Player''
         then ball_hits_player (fst collision) (snd collision) w
       else if m_name first = ''Player'' \<and> m_name second = ''Ball''
         then ball_hits_player (snd collision) (fst collision) w
       else Inr w))"

definition setCollisionRecord :: "(eptr \<times> eptr) list \<Rightarrow> World \<Rightarrow> World" where
  "setCollisionRecord collisions w = w\<lparr>collider_collisions := collisions\<rparr>"

definition CollisionEffectsSystem_update :: "World \<Rightarrow> fault + World" where
  "CollisionEffectsSystem_update w =
     and_then (for_each apply_collision (collider_collisions w) w) (\<lambda>w1.
       Inr (w1\<lparr>collider_collisions := []\<rparr>))"

section \<open>The life system\<close>

text \<open>
  The body of the loop of \<^verbatim>\<open>LifeSystem::update\<close>: the guard on the name, the lookup,
  and the single test \<^verbatim>\<open>life->lifepoints <= 0\<close>, under which \<^verbatim>\<open>alive\<close> is cleared and
  the event is pushed.
\<close>

definition check_life :: "eptr \<Rightarrow> World \<Rightarrow> fault + World" where
  "check_life e w =
     and_then (entity_at w e) (\<lambda>ent.
       if \<not> hasComponent ent ''Life'' then Inr w
       else
         let life = getComponent Life_class ''Life'' ent (objects w)
         in and_then (and_then (deref w life) as_Life) (\<lambda>l.
              if fst l \<le> 0
              then and_then (store life (LifeComponent (fst l) False) w) (\<lambda>w1.
                     Inr (push_event (Event EntityDeath (Some (EntityDeathData e))) w1))
              else Inr w))"

definition LifeSystem_update :: "World \<Rightarrow> fault + World" where
  "LifeSystem_update w = for_each check_life (m_entities w) w"

section \<open>The particle system\<close>

text \<open>
  \<^verbatim>\<open>static_cast<sf::Uint8>(ratio * 255)\<close>: the conversion truncates toward zero and is
  defined by the language only when the truncated value fits the destination, 0..255.
  \<open>static_cast_Uint8_wrapping\<close> is what the usual compilation does outside that range:
  the float is converted to a wider integer and its low eight bits are kept.
\<close>

definition static_cast_Uint8 :: "real \<Rightarrow> fault + 8 word" where
  "static_cast_Uint8 r =
     (if 0 \<le> trunc_toward_zero r \<and> trunc_toward_zero r \<le> 255
      then Inr (word_of_int (trunc_toward_zero r))
      else Inl UndefinedConversion)"

definition static_cast_Uint8_wrapping :: "real \<Rightarrow> 8 word" where
  "static_cast_Uint8_wrapping r = word_of_int (trunc_toward_zero r)"

fun as_Particle :: "Component \<Rightarrow> fault + (Color \<times> Vector2f \<times> Particle list \<times> Vertex list \<times> int)" where
  "as_Particle (ParticleComponent col c ps vs t) = Inr (col, c, ps, vs, t)"
| "as_Particle _ = Inl NullDereference"

text \<open>
  The body of the loop over the particles of one emitter: the lifetime decreases by the
  elapsed time, the vertex moves by velocity times elapsed seconds, and the alpha channel
  becomes the remaining lifetime in seconds times 255, converted to eight bits.
\<close>

definition update_particle :: "int \<Rightarrow> Particle \<Rightarrow> Vertex \<Rightarrow> fault + (Particle \<times> Vertex)" where
  "update_particle elapsed p vert =
     (let lifetime' = lifetime p - elapsed;
          position' = Vector2f (vx (vposition vert) + vx (velocity p) * asSeconds elapsed)
                               (vy (vposition vert) + vy (velocity p) * asSeconds elapsed);
          ratio = asSeconds lifetime'
      in and_then (static_cast_Uint8 (ratio * 255)) (\<lambda>a.
           Inr (Particle (velocity p) lifetime',
                Vertex position'
                  (Color (red (vcolor vert)) (green (vcolor vert)) (blue (vcolor vert)) a))))"

fun update_particles ::
  "int \<Rightarrow> Particle list \<Rightarrow> Vertex list \<Rightarrow> fault + (Particle list \<times> Vertex list)" where
  "update_particles elapsed [] vs = Inr ([], vs)"
| "update_particles elapsed (p # ps) [] = Inl OutOfBounds"
| "update_particles elapsed (p # ps) (v # vs) =
     and_then (update_particle elapsed p v) (\<lambda>pv.
     and_then (update_particles elapsed ps vs) (\<lambda>rest.
       Inr (fst pv # fst rest, snd pv # snd rest)))"

definition watch_particles :: "int \<Rightarrow> eptr \<Rightarrow> World \<Rightarrow> fault + World" where
  "watch_particles elapsed e w =
     and_then (entity_at w e) (\<lambda>ent.
       if \<not> hasComponent ent ''Particle'' then Inr w
       else
         let particles = getComponent Particle_class ''Particle'' ent (objects w)
         in and_then (and_then (deref w particles) as_Particle) (\<lambda>(col, c, ps, vs, t).
            and_then (store particles (ParticleComponent col c ps vs (t + elapsed)) w) (\<lambda>w1.
              if t + elapsed \<ge> seconds 2 then mark_toDelete e w1
              else and_then (update_particles elapsed ps vs) (\<lambda>(ps', vs').
                     store particles (ParticleComponent col c ps' vs' (t + elapsed)) w1))))"

definition ParticleWatcherSystem_update :: "int \<Rightarrow> World \<Rightarrow> fault + World" where
  "ParticleWatcherSystem_update elapsed w = for_each (watch_particles elapsed) (m_entities w) w"

section \<open>The world: factories, event handling, sweep\<close>

text \<open>
  \<^verbatim>\<open>World::createComponent<T>()\<close> allocates the component and pushes its pointer on the
  component registry. \<^verbatim>\<open>World::createEntity\<close> allocates the entity, gives it a new
  deletion marker and pushes its pointer on the entity registry. The constructor of
  \<^verbatim>\<open>kantan::Entity\<close> is in the absent \<^verbatim>\<open>Entity.cpp\<close>; modelled from the spec, it takes
  the next identifier of the static counter.
\<close>

definition createComponent :: "Component \<Rightarrow> World \<Rightarrow> cptr \<times> World" where
  "createComponent c w =
     (length (objects w),
      w\<lparr>objects := objects w @ [c], m_components := m_components w @ [length (objects w)]\<rparr>)"

definition entity_addComponent :: "eptr \<Rightarrow> cptr \<Rightarrow> World \<Rightarrow> World" where
  "entity_addComponent e c w =
     w\<lparr>entity_objects := (entity_objects w)[e := addComponent (objects w) c (entity_objects w ! e)]\<rparr>"

definition createEntity :: "string \<Rightarrow> World \<Rightarrow> eptr \<times> World" where
  "createEntity name w =
     (let e = length (entity_objects w);
          w1 = w\<lparr>entity_objects := entity_objects w @ [Entity (m_lastid w) name []],
                 m_lastid := m_lastid w + 1\<rparr>;
          dmc = createComponent (DeletionMarkerComponent False) w1;
          w2 = entity_addComponent e (fst dmc) (snd dmc)
      in (e, w2\<lparr>m_entities := m_entities w2 @ [e]\<rparr>))"

text \<open>
  The constructor of \<^verbatim>\<open>ParticleComponent::Particle\<close> draws three random numbers; the
  component holds a pool of 1000 particles and 1000 vertices, and \<^verbatim>\<open>init()\<close> puts every
  vertex of the pool on the centre with the base colour.
\<close>

definition new_Particle :: "(nat \<Rightarrow> nat) \<Rightarrow> nat \<Rightarrow> Particle" where
  "new_Particle rv pos =
     (let angle = real (rv pos mod 360) * 3.14 / 180;
          speed = real (rv (pos + 1) mod 50) + 20
      in Particle (Vector2f (cos angle * speed) (sin angle * speed))
                  (milliseconds (int (rv (pos + 2) mod 2000) + 1000)))"

fun new_Particles :: "(nat \<Rightarrow> nat) \<Rightarrow> nat \<Rightarrow> nat \<Rightarrow> Particle list" where
  "new_Particles rv pos 0 = []"
| "new_Particles rv pos (Suc n) = new_Particle rv pos # new_Particles rv (pos + 3) n"

definition init_vertices :: "Color \<Rightarrow> Vector2f \<Rightarrow> nat \<Rightarrow> Vertex list \<Rightarrow> Vertex list" where
  "init_vertices col c n vs = map (\<lambda>_. Vertex c col) (take n vs) @ drop n vs"

definition createExplosion :: "Constants \<Rightarrow> Color \<Rightarrow> Vector2f \<Rightarrow> World \<Rightarrow> World" where
  "createExplosion k col pos w =
     (let explosion = createEntity ''Explosion'' w;
          ps = new_Particles (rand_values k) (rand_pos w) 1000;
          vs = replicate 1000 (Vertex (Vector2f 0 0) Color_White);
          particles = createComponent
                        (ParticleComponent col pos ps (init_vertices col pos (length ps) vs) 0)
                        ((snd explosion)\<lparr>rand_pos := rand_pos w + 3000\<rparr>)
      in entity_addComponent (fst explosion) (fst particles) (snd particles))"

text \<open>
  The remainder of the C++ \<^verbatim>\<open>%\<close> on \<^verbatim>\<open>int\<close>: it has the sign of the dividend. The
  score and the combo are C++ \<^verbatim>\<open>int\<close>s, modelled as unbounded integers.
\<close>

definition cpp_rem :: "int \<Rightarrow> int \<Rightarrow> int" where
  "cpp_rem a b = sgn a * (\<bar>a\<bar> mod \<bar>b\<bar>)"

text \<open>
  The handler of a \<^verbatim>\<open>ColoredBallShot\<close> event in \<^verbatim>\<open>World::update\<close>, after the explosion:
  the score and combo bookkeeping.
\<close>

definition score_hit :: "Constants \<Rightarrow> Color \<Rightarrow> World \<Rightarrow> World" where
  "score_hit k col w =
     (if col = m_colorAffinity w then
        let w1 = w\<lparr>played := played w @ [HitGoodBallSound], m_combo := m_combo w + 1\<rparr>;
            w2 = (if real_of_int (m_combo w1) > COMBO_MIN k
                     \<and> cpp_rem (m_combo w1) (SUGOI_COMBO k) = 0
                  then w1\<lparr>played := played w1 @ [SugoiSound], m_lastSugoiDisplay := 0\<rparr>
                  else w1)
        in if real_of_int (m_combo w2) > COMBO_MIN k
           then w2\<lparr>m_score := m_score w2 + m_combo w2\<rparr>
           else w2\<lparr>m_score := m_score w2 + 1\<rparr>
      else w\<lparr>played := played w @ [HitWrongBallSound],
             m_score := m_score w - 1, m_combo := 0\<rparr>)"

definition handle_event :: "Constants \<Rightarrow> Event \<Rightarrow> World \<Rightarrow> fault + World" where
  "handle_event k event w =
     (if getEventType event = PlayerHit then
        let w1 = w\<lparr>m_combo := 0, played := played w @ [HitSound]\<rparr>
        in and_then (entity_at w1 (m_player w1)) (\<lambda>player.
           and_then (and_then
                       (deref w1 (getComponent Life_class ''Life'' player (objects w1)))
                       as_Life) (\<lambda>l.
             if fst l \<le> 0 then Inr (w1\<lparr>m_isRunning := False\<rparr>) else Inr w1))
      else if getEventType event = ColoredBallShot then
        (case eventData event of
           Some (ColoredBallShotData col center) \<Rightarrow>
             Inr (score_hit k col (createExplosion k col center w))
         | _ \<Rightarrow> Inl NullDereference)
      else Inr w)"

text \<open>
  \<^verbatim>\<open>while(kantan::pollEvent(event, m_eventQueue))\<close>: the head of the queue is removed and
  handled until the queue is empty. No handler pushes an event, so the loop runs once
  per queued event.
\<close>

fun drain :: "Constants \<Rightarrow> Event list \<Rightarrow> World \<Rightarrow> fault + World" where
  "drain k [] w = Inr (w\<lparr>m_eventQueue := []\<rparr>)"
| "drain k (event # rest) w =
     and_then (handle_event k event (w\<lparr>m_eventQueue := rest\<rparr>)) (drain k rest)"

definition handle_events :: "Constants \<Rightarrow> World \<Rightarrow> fault + World" where
  "handle_events k w = drain k (m_eventQueue w) w"

definition change_affinity :: "Constants \<Rightarrow> World \<Rightarrow> World" where
  "change_affinity k w =
     (if m_lastAffinityChange w > seconds (AFFINITY_CHANGE_INTERVAL k) then
        w\<lparr>m_colorAffinity :=
             (if m_colorAffinity w = Color_Yellow then Color_Red
              else if m_colorAffinity w = Color_Red then Color_Blue
              else if m_colorAffinity w = Color_Blue then Color_Green
              else if m_colorAffinity w = Color_Green then Color_Yellow
              else m_colorAffinity w),
           played := played w @ [ChangeAffinitySound],
           m_lastAffinityChange := 0\<rparr>
      else w)"

text \<open>
  \<^verbatim>\<open>World::cleanEntities\<close>. For an entity whose marker is set, each of its component
  pointers is searched in the component registry and its first occurrence erased, then
  the entity pointer is erased from the entity registry and the loop goes on with the
  element that has moved into the erased position (the source reads on through the
  iterator it passed to \<^verbatim>\<open>erase\<close>, which for a \<^verbatim>\<open>std::vector\<close> addresses that element).
  No object is released.
\<close>

fun erase_components :: "cptr list \<Rightarrow> cptr list \<Rightarrow> cptr list" where
  "erase_components [] registry = registry"
| "erase_components (c # cs) registry = erase_components cs (remove1 c registry)"

definition toDelete :: "World \<Rightarrow> eptr \<Rightarrow> fault + bool" where
  "toDelete w e =
     and_then (entity_at w e) (\<lambda>ent.
       and_then (deref w (getComponent DeletionMarker_class ''DeletionMarker'' ent (objects w)))
         as_DeletionMarker)"

fun sweep :: "World \<Rightarrow> eptr list \<Rightarrow> cptr list \<Rightarrow> fault + (eptr list \<times> cptr list)" where
  "sweep w [] registry = Inr ([], registry)"
| "sweep w (e # es) registry =
     and_then (toDelete w e) (\<lambda>marked.
       if marked
       then sweep w es
              (erase_components (map snd (getAllComponents (entity_objects w ! e))) registry)
       else and_then (sweep w es registry) (\<lambda>r. Inr (e # fst r, snd r)))"

definition cleanEntities :: "World \<Rightarrow> fault + World" where
  "cleanEntities w =
     and_then (sweep w (m_entities w) (m_components w)) (\<lambda>r.
       Inr (w\<lparr>m_entities := fst r, m_components := snd r\<rparr>))"

text \<open>
  The part of \<^verbatim>\<open>World::update\<close> from the physics pass to the sweep, in the order of the
  source, after the clamp of the time step to half a second and the advance of the two
  timers read below. Input, spawning, the animation pass and the playlist come before it
  and are not modelled.
\<close>

definition clamp_dt :: "int \<Rightarrow> int" where
  "clamp_dt dt = (if asSeconds dt > 0.5 then seconds 0.5 else dt)"

definition run_systems :: "Constants \<Rightarrow> int \<Rightarrow> World \<Rightarrow> fault + World" where
  "run_systems k dt w =
     and_then (PhysicSystem_update dt w) (\<lambda>w1.
     and_then (SynchronizeSystem_update w1) (\<lambda>w2.
     and_then (CollisionEffectsSystem_update (setCollisionRecord (physics_collisions w2) w2)) (\<lambda>w3.
     and_then (LifeSystem_update w3) (\<lambda>w4.
     and_then (handle_events k w4) (\<lambda>w5.
     and_then (ParticleWatcherSystem_update dt (change_affinity k w5)) cleanEntities)))))"

definition World_update :: "Constants \<Rightarrow> int \<Rightarrow> World \<Rightarrow> fault + World" where
  "World_update k dt w =
     (let dt' = clamp_dt dt
      in run_systems k dt'
           (w\<lparr>m_lastSugoiDisplay := m_lastSugoiDisplay w + dt',
              m_lastAffinityChange := m_lastAffinityChange w + dt'\<rparr>))"

section \<open>The collision sides as the specification words them\<close>




section \<open>Properties of worlds\<close>

text \<open>
  What a pass leaves of the registries. \<open>same_registry\<close>: the entity registry, the
  component registry and every entity object are the same, and every component object is
  still there with the class it had. \<open>survives\<close>: the same for everything that existed
  before, with new entities and components allowed at the end.
\<close>

definition same_registry :: "World \<Rightarrow> World \<Rightarrow> bool" where
  "same_registry w w' \<longleftrightarrow>
     m_entities w' = m_entities w \<and> m_components w' = m_components w
     \<and> entity_objects w' = entity_objects w
     \<and> map class_of (objects w') = map class_of (objects w)"

definition survives :: "World \<Rightarrow> World \<Rightarrow> bool" where
  "survives w w' \<longleftrightarrow>
     prefix (m_entities w) (m_entities w') \<and> prefix (m_components w) (m_components w')
     \<and> prefix (entity_objects w) (entity_objects w')
     \<and> prefix (map class_of (objects w)) (map class_of (objects w'))"

text \<open>
  The life component of an entity that has one, and the entities the life system acts on:
  those with a life component whose life points are zero or less.
\<close>

definition life_ptr :: "World \<Rightarrow> eptr \<Rightarrow> cptr option" where
  "life_ptr w e =
     (case entity_at w e of
        Inl _ \<Rightarrow> None
      | Inr ent \<Rightarrow>
          if hasComponent ent ''Life''
          then getComponent Life_class ''Life'' ent (objects w)
          else None)"

definition life_of :: "World \<Rightarrow> eptr \<Rightarrow> (int \<times> bool) option" where
  "life_of w e =
     (case life_ptr w e of
        None \<Rightarrow> None
      | Some a \<Rightarrow> (case as_Life (objects w ! a) of Inl _ \<Rightarrow> None | Inr l \<Rightarrow> Some l))"



definition checked :: "int \<times> bool \<Rightarrow> int \<times> bool" where
  "checked l = (fst l, if fst l \<le> 0 then False else snd l)"

text \<open>
  Components stored under the name of their own class: every entry of the component map
  of every registered entity points to an object of one of the seven component classes,
  under the name that class passes to the base constructor.
\<close>

fun class_name :: "ComponentClass \<Rightarrow> string" where
  "class_name Component_class = ''Unknown''"
| "class_name DeletionMarker_class = ''DeletionMarker''"
| "class_name Hitbox_class = ''Hitbox''"
| "class_name Sprite_class = ''Sprite''"
| "class_name Movement_class = ''Movement''"
| "class_name Animation_class = ''Animation''"
| "class_name Life_class = ''Life''"
| "class_name Particle_class = ''Particle''"

definition typed_entry :: "ComponentClass list \<Rightarrow> string \<times> cptr \<Rightarrow> bool" where
  "typed_entry classes entry \<longleftrightarrow>
     snd entry < length classes \<and> classes ! snd entry \<noteq> Component_class
     \<and> class_name (classes ! snd entry) = fst entry"

definition typed_store :: "World \<Rightarrow> bool" where
  "typed_store w \<longleftrightarrow>
     list_all (\<lambda>e. e < length (entity_objects w)
                  \<and> list_all (typed_entry (map class_of (objects w)))
                       (components_map (entity_objects w ! e)))
       (m_entities w)"

text \<open>
  What the factories give the three categories the collision-effects system writes to:
  \<^verbatim>\<open>shootSakura\<close>, \<^verbatim>\<open>createBall\<close> and \<^verbatim>\<open>addPlayer\<close> each add a sprite and a life
  component to an entity that \<^verbatim>\<open>createEntity\<close> made with its deletion marker.
\<close>

definition has_class :: "World \<Rightarrow> ComponentClass \<Rightarrow> eptr \<Rightarrow> bool" where
  "has_class w T e \<longleftrightarrow>
     e < length (entity_objects w)
     \<and> getComponent T (class_name T) (entity_objects w ! e) (objects w) \<noteq> None"

definition gameplay_entity_ok :: "World \<Rightarrow> eptr \<Rightarrow> bool" where
  "gameplay_entity_ok w e \<longleftrightarrow>
     e < length (entity_objects w)
     \<and> (m_name (entity_objects w ! e) \<in> set [''Sakura'', ''Ball'', ''Player'']
          \<longrightarrow> has_class w Life_class e \<and> has_class w DeletionMarker_class e
              \<and> has_class w Sprite_class e)"

definition record_ok :: "World \<Rightarrow> bool" where
  "record_ok w \<longleftrightarrow>
     list_all (\<lambda>c. gameplay_entity_ok w (fst c) \<and> gameplay_entity_ok w (snd c))
       (collider_collisions w)"

text \<open>What the sweep needs of every registered entity: a deletion marker to read.\<close>

definition markers_present :: "World \<Rightarrow> bool" where
  "markers_present w \<longleftrightarrow> list_all (has_class w DeletionMarker_class) (m_entities w)"

section \<open>Example worlds\<close>

text \<open>
  The members as the constructor of \<^verbatim>\<open>World\<close> initialises them, with empty registries.
\<close>

definition new_World :: World where
  "new_World =
     \<lparr>objects = [], entity_objects = [], m_lastid = 0, m_entities = [], m_components = [],
      m_eventQueue = [], physics_collisions = [], collider_collisions = [], m_player = 0,
      m_isRunning = True, m_colorAffinity = Color_Red, m_score = 0, m_combo = 0,
      m_lastSugoiDisplay = seconds 1000, m_lastAffinityChange = 0, played = [],
      rand_pos = 0\<rparr>"


text \<open>The tunables of the normal difficulty, with some sequence of random numbers.\<close>

definition normal_constants :: Constants where
  "normal_constants =
     \<lparr>COMBO_MIN = 5, SUGOI_COMBO = 10, AFFINITY_CHANGE_INTERVAL = 25,
      rand_values = (\<lambda>n. (n * 7919 + 13) mod 32768)\<rparr>"



text \<open>
  A falling ball, registered first, six units above a rising projectile of the player,
  both as \<^verbatim>\<open>createBall\<close> and \<^verbatim>\<open>shootSakura\<close> build them (deletion marker, sprite,
  non-blocking hitbox, movement, one life point), with the speeds of the normal
  difficulty.
\<close>

definition crossing_world :: World where
  "crossing_world =
     new_World
       \<lparr>objects :=
          [DeletionMarkerComponent False,
           SpriteComponent (Sprite (Vector2f 100 0) (IntRect 64 0 64 64)),
           HitboxComponent (FloatRect 100 0 64 64) False,
           MovementComponent (Vector2f 0 300),
           LifeComponent 1 True,
           DeletionMarkerComponent False,
           SpriteComponent (Sprite (Vector2f 116 70) (IntRect 0 0 32 32)),
           HitboxComponent (FloatRect 116 70 32 32) False,
           MovementComponent (Vector2f 0 (- 300)),
           LifeComponent 1 True],
        entity_objects :=
          [Entity 0 ''Ball''
             [(''DeletionMarker'', 0), (''Sprite'', 1), (''Hitbox'', 2), (''Movement'', 3),
              (''Life'', 4)],
           Entity 1 ''Sakura''
             [(''DeletionMarker'', 5), (''Sprite'', 6), (''Hitbox'', 7), (''Movement'', 8),
              (''Life'', 9)]],
        m_lastid := 2,
        m_entities := [0, 1],
        m_components := [0, 1, 2, 3, 4, 5, 6, 7, 8, 9]\<rparr>"

text \<open>
  A projectile and an entity that carries the category name of a ball but has no life
  component, with the pair (projectile, ball) in the collision record.
\<close>

definition lifeless_ball_world :: World where
  "lifeless_ball_world =
     new_World
       \<lparr>objects :=
          [DeletionMarkerComponent False,
           LifeComponent 1 True,
           SpriteComponent (Sprite (Vector2f 116 70) (IntRect 0 0 32 32)),
           DeletionMarkerComponent False,
           SpriteComponent (Sprite (Vector2f 100 0) (IntRect 64 0 64 64))],
        entity_objects :=
          [Entity 0 ''Sakura'' [(''DeletionMarker'', 0), (''Life'', 1), (''Sprite'', 2)],
           Entity 1 ''Ball'' [(''DeletionMarker'', 3), (''Sprite'', 4)]],
        m_lastid := 2,
        m_entities := [0, 1],
        m_components := [0, 1, 2, 3, 4],
        collider_collisions := [(0, 1)]\<rparr>"

section \<open>Component lookup\<close>

text \<open>
  C9. For every entity, component name and requested class, \<open>getComponent\<close> returns the
  stored pointer when the name is present and the dynamic type of the stored component
  matches the requested class; it returns the null result when the name is missing, and
  also when the name is present but the dynamic type does not match. The function is
  total: no branch of it raises.
\<close>

theorem getComponent_soft_lookup:
  "(map_of (components_map e) name = Some p \<and> p < length heap
      \<and> derived_from (class_of (heap ! p)) T
        \<longrightarrow> hasComponent e name \<and> getComponent T name e heap = Some p)
   \<and> (\<not> hasComponent e name \<longrightarrow> getComponent T name e heap = None)
   \<and> (map_of (components_map e) name = Some p \<and> \<not> derived_from (class_of (heap ! p)) T
        \<longrightarrow> hasComponent e name \<and> getComponent T name e heap = None)"
  by (simp add: getComponent_def hasComponent_def dynamic_cast_def)

theorem getComponent_soft_lookup_witness:
  "getComponent Life_class ''Life''
      (Entity 0 ''Ball'' [(''DeletionMarker'', 0), (''Life'', 1)])
      [DeletionMarkerComponent False, LifeComponent 1 True] = Some 1
   \<and> getComponent Life_class ''Sprite''
      (Entity 0 ''Ball'' [(''DeletionMarker'', 0), (''Life'', 1)])
      [DeletionMarkerComponent False, LifeComponent 1 True] = None
   \<and> getComponent Hitbox_class ''Life''
      (Entity 0 ''Ball'' [(''DeletionMarker'', 0), (''Life'', 1)])
      [DeletionMarkerComponent False, LifeComponent 1 True] = None"
  using getComponent_soft_lookup
          [of "Entity 0 ''Ball'' [(''DeletionMarker'', 0), (''Life'', 1)]" "''Life''" 1
              "[DeletionMarkerComponent False, LifeComponent 1 True]" Life_class]
        getComponent_soft_lookup
          [of "Entity 0 ''Ball'' [(''DeletionMarker'', 0), (''Life'', 1)]" "''Sprite''" 1
              "[DeletionMarkerComponent False, LifeComponent 1 True]" Life_class]
        getComponent_soft_lookup
          [of "Entity 0 ''Ball'' [(''DeletionMarker'', 0), (''Life'', 1)]" "''Life''" 1
              "[DeletionMarkerComponent False, LifeComponent 1 True]" Hitbox_class]
  by (simp add: hasComponent_def derived_from_def)

section \<open>Basic facts\<close>

lemma and_then_simps [simp]:
  "and_then (Inl e) f = Inl e"
  "and_then (Inr v) f = f v"
  by (simp_all add: and_then_def)

lemma and_then_Inr_iff: "and_then m f = Inr r \<longleftrightarrow> (\<exists>v. m = Inr v \<and> f v = Inr r)"
  by (cases m) simp_all


section \<open>The physics system: one examined pair\<close>













lemmas eval_defs = new_World_def entity_at_def hasComponent_def getComponent_def
  dynamic_cast_def derived_from_def deref_def store_def Let_def



section \<open>Score and combo\<close>

lemma createExplosion_fields [simp]:
  "m_combo (createExplosion k col pos w) = m_combo w"
  "m_score (createExplosion k col pos w) = m_score w"
  "m_colorAffinity (createExplosion k col pos w) = m_colorAffinity w"
  "played (createExplosion k col pos w) = played w"
  "m_lastSugoiDisplay (createExplosion k col pos w) = m_lastSugoiDisplay w"
  by (simp_all add: createExplosion_def createEntity_def createComponent_def
      entity_addComponent_def Let_def)


section \<open>Particle fade\<close>

lemma static_cast_Uint8_in_range:
  "0 \<le> r \<Longrightarrow> r < 256 \<Longrightarrow> static_cast_Uint8 r = Inr (word_of_int \<lfloor>r\<rfloor>)"
  by (simp add: static_cast_Uint8_def trunc_toward_zero_def floor_le_iff)

lemma alpha_of_one_second:
  "update_particle elapsed (Particle u (1000000 + elapsed)) (Vertex q (Color r g b a))
     = Inr (Particle u 1000000,
            Vertex (Vector2f (vx q + vx u * asSeconds elapsed) (vy q + vy u * asSeconds elapsed))
              (Color r g b 255))"
  by (simp add: update_particle_def static_cast_Uint8_def trunc_toward_zero_def asSeconds_def)

text \<open>
  C2 at particles the pool really holds. A particle is created with a lifetime between
  1000 and 2999 milliseconds. One of 2000 milliseconds, after a step of 16 milliseconds,
  has 1.984 seconds left: 1.984 times 255 truncates to 505, outside 0..255, so the
  conversion is undefined and the usual compilation stores 249; with no time elapsed the
  product is 510 and 254 is stored, not 255. A particle with 10 milliseconds left, after
  a step of 16 milliseconds, has -0.006 seconds left, the product truncates to -1, and
  255 is stored, not 0. No branch clamps the value.
\<close>

theorem particle_alpha_not_clamped:
  "update_particle 16000 (Particle (Vector2f 30 40) 2000000) (Vertex (Vector2f 0 0) Color_Red)
     = Inl UndefinedConversion
   \<and> static_cast_Uint8_wrapping (asSeconds (2000000 - 16000) * 255) = 249
   \<and> update_particle 0 (Particle (Vector2f 30 40) 2000000) (Vertex (Vector2f 0 0) Color_Red)
     = Inl UndefinedConversion
   \<and> static_cast_Uint8_wrapping (asSeconds (2000000 - 0) * 255) = 254
   \<and> update_particle 16000 (Particle (Vector2f 30 40) 10000) (Vertex (Vector2f 0 0) Color_Red)
     = Inl UndefinedConversion
   \<and> static_cast_Uint8_wrapping (asSeconds (10000 - 16000) * 255) = 255"
  by (simp add: update_particle_def static_cast_Uint8_def static_cast_Uint8_wrapping_def
      trunc_toward_zero_def asSeconds_def Color_Red_def)

section \<open>Stores and frames\<close>

lemma map_eq_nth: "map f xs = map f ys \<Longrightarrow> i < length xs \<Longrightarrow> f (xs ! i) = f (ys ! i)"
  by (metis length_map nth_map)

lemma map_eq_length: "map f xs = map f ys \<Longrightarrow> length xs = length ys"
  by (metis length_map)

lemma dynamic_cast_cong:
  "map class_of h' = map class_of h \<Longrightarrow> dynamic_cast T h' p = dynamic_cast T h p"
  using map_eq_nth [of class_of h' h p] map_eq_length [of class_of h' h]
  by (auto simp add: dynamic_cast_def)

lemma getComponent_cong:
  "map class_of h' = map class_of h \<Longrightarrow> getComponent T n e h' = getComponent T n e h"
  using dynamic_cast_cong [of h' h T] by (simp add: getComponent_def split: option.splits)

lemma getComponent_SomeD:
  "getComponent T n e h = Some a \<Longrightarrow>
     a < length h \<and> derived_from (class_of (h ! a)) T \<and> map_of (components_map e) n = Some a"
  by (auto simp add: getComponent_def dynamic_cast_def split: option.splits if_splits)

lemma getComponent_class:
  "getComponent T n e h = Some a \<Longrightarrow> T \<noteq> Component_class \<Longrightarrow> class_of (h ! a) = T"
  by (auto dest: getComponent_SomeD simp add: derived_from_def)

lemma same_registry_refl [simp]: "same_registry w w"
  by (simp add: same_registry_def)

lemma same_registry_trans:
  "same_registry w w1 \<Longrightarrow> same_registry w1 w2 \<Longrightarrow> same_registry w w2"
  by (simp add: same_registry_def)

lemma same_registry_survives: "same_registry w w' \<Longrightarrow> survives w w'"
  by (simp add: same_registry_def survives_def)

lemma survives_refl [simp]: "survives w w"
  by (simp add: survives_def)


lemma store_Inr:
  "store p c w = Inr w' \<longleftrightarrow>
     (\<exists>a. p = Some a \<and> a < length (objects w) \<and> w' = w\<lparr>objects := (objects w)[a := c]\<rparr>)"
  by (auto simp add: store_def split: option.splits)

lemma update_same_class:
  "class_of c = class_of (h ! a) \<Longrightarrow> map class_of (h[a := c]) = map class_of h"
proof (cases "a < length h")
  case True
  assume "class_of c = class_of (h ! a)"
  with True have "(map class_of h)[a := class_of c] = (map class_of h)[a := map class_of h ! a]"
    by simp
  then have "(map class_of h)[a := class_of c] = map class_of h"
    by (simp only: list_update_id)
  then show ?thesis by (simp add: map_update)
next
  case False
  then have "h[a := c] = h" by (simp add: list_update_beyond)
  then show ?thesis by simp
qed

lemma store_same_registry:
  assumes "store p c w = Inr w'" and "\<And>a. p = Some a \<Longrightarrow> class_of c = class_of (objects w ! a)"
  shows "same_registry w w'"
  using assms by (auto simp add: store_Inr same_registry_def update_same_class)

lemma as_Life_Inr: "as_Life c = Inr l \<longleftrightarrow> c = LifeComponent (fst l) (snd l)"
  by (cases c) auto

lemma as_Hitbox_Inr: "as_Hitbox c = Inr l \<longleftrightarrow> c = HitboxComponent (fst l) (snd l)"
  by (cases c) auto

lemma as_Movement_Inr: "as_Movement c = Inr v \<longleftrightarrow> c = MovementComponent v"
  by (cases c) auto

lemma as_Sprite_Inr: "as_Sprite c = Inr v \<longleftrightarrow> c = SpriteComponent v"
  by (cases c) auto

lemma as_DeletionMarker_Inr: "as_DeletionMarker c = Inr v \<longleftrightarrow> c = DeletionMarkerComponent v"
  by (cases c) auto

lemma as_Particle_Inr:
  "as_Particle c = Inr r \<longleftrightarrow>
     c = ParticleComponent (fst r) (fst (snd r)) (fst (snd (snd r))) (fst (snd (snd (snd r))))
           (snd (snd (snd (snd r))))"
  by (cases c) auto

lemma deref_Inr:
  "deref w p = Inr c \<longleftrightarrow> (\<exists>a. p = Some a \<and> a < length (objects w) \<and> c = objects w ! a)"
  by (auto simp add: deref_def split: option.splits)


section \<open>Passes keep the registries\<close>

lemma set_lifepoints_Inr:
  "set_lifepoints f e w = Inr w' \<Longrightarrow>
     \<exists>ent a n al. entity_at w e = Inr ent
       \<and> getComponent Life_class ''Life'' ent (objects w) = Some a
       \<and> objects w ! a = LifeComponent n al
       \<and> w' = w\<lparr>objects := (objects w)[a := LifeComponent (f n) al]\<rparr>"
proof -
  assume "set_lifepoints f e w = Inr w'"
  then obtain ent l c where ent: "entity_at w e = Inr ent"
    and c: "deref w (getComponent Life_class ''Life'' ent (objects w)) = Inr c"
    and l: "as_Life c = Inr l"
    and st: "store (getComponent Life_class ''Life'' ent (objects w))
               (LifeComponent (f (fst l)) (snd l)) w = Inr w'"
    by (auto simp add: set_lifepoints_def Let_def and_then_Inr_iff)
  from c obtain a where a: "getComponent Life_class ''Life'' ent (objects w) = Some a"
    "a < length (objects w)" "c = objects w ! a"
    by (auto simp add: deref_Inr)
  from l a have "objects w ! a = LifeComponent (fst l) (snd l)"
    by (simp add: as_Life_Inr)
  moreover from st a have "w' = w\<lparr>objects := (objects w)[a := LifeComponent (f (fst l)) (snd l)]\<rparr>"
    by (simp add: store_Inr)
  ultimately show ?thesis using ent a(1) by blast
qed

lemma mark_toDelete_Inr:
  "mark_toDelete e w = Inr w' \<Longrightarrow>
     \<exists>ent a. entity_at w e = Inr ent
       \<and> getComponent DeletionMarker_class ''DeletionMarker'' ent (objects w) = Some a
       \<and> w' = w\<lparr>objects := (objects w)[a := DeletionMarkerComponent True]\<rparr>"
  by (auto simp add: mark_toDelete_def and_then_Inr_iff store_Inr)

lemma set_lifepoints_same: "set_lifepoints f e w = Inr w' \<Longrightarrow> same_registry w w'"
  by (auto dest!: set_lifepoints_Inr simp add: same_registry_def update_same_class)

lemma mark_toDelete_same: "mark_toDelete e w = Inr w' \<Longrightarrow> same_registry w w'"
  by (auto dest!: mark_toDelete_Inr dest: getComponent_class
      simp add: same_registry_def update_same_class)

lemma push_event_same [simp]: "same_registry w (push_event ev w)"
  by (simp add: same_registry_def push_event_def)

lemma and_then_same:
  assumes "and_then m f = Inr w'"
    and "\<And>w1. m = Inr w1 \<Longrightarrow> same_registry w w1"
    and "\<And>w1. m = Inr w1 \<Longrightarrow> f w1 = Inr w' \<Longrightarrow> same_registry w1 w'"
  shows "same_registry w w'"
proof -
  from assms(1) obtain w1 where w1: "m = Inr w1" "f w1 = Inr w'"
    by (auto simp add: and_then_Inr_iff)
  from assms(2) [OF w1(1)] assms(3) [OF w1] show ?thesis
    by (rule same_registry_trans)
qed

lemma sakura_hits_ball_same:
  assumes "sakura_hits_ball s b w = Inr w'"
  shows "same_registry w w'"
proof -
  from assms obtain w1 w2 w3 w4 sprite where
    "set_lifepoints (\<lambda>_. 0) b w = Inr w1" "set_lifepoints (\<lambda>_. 0) s w1 = Inr w2"
    "mark_toDelete s w2 = Inr w3" "mark_toDelete b w3 = Inr w4"
    "w' = push_event
            (Event ColoredBallShot
               (Some (ColoredBallShotData (ball_color sprite) (ball_center sprite)))) w4"
    unfolding sakura_hits_ball_def and_then_Inr_iff by blast
  then have "same_registry w w1" "same_registry w1 w2" "same_registry w2 w3"
    "same_registry w3 w4" "same_registry w4 w'"
    by (simp_all add: set_lifepoints_same mark_toDelete_same)
  then show ?thesis by (simp add: same_registry_def)
qed

lemma ball_hits_wall_same:
  assumes "ball_hits_wall b w = Inr w'"
  shows "same_registry w w'"
proof -
  from assms obtain w1 where
    "set_lifepoints (\<lambda>_. 0) b w = Inr w1" "mark_toDelete b w1 = Inr w'"
    unfolding ball_hits_wall_def and_then_Inr_iff by blast
  then have "same_registry w w1" "same_registry w1 w'"
    by (simp_all add: set_lifepoints_same mark_toDelete_same)
  then show ?thesis by (simp add: same_registry_def)
qed

lemma ball_hits_player_same:
  assumes "ball_hits_player b p w = Inr w'"
  shows "same_registry w w'"
proof -
  from assms obtain w1 w2 w3 where
    "set_lifepoints (\<lambda>_. 0) b w = Inr w1" "mark_toDelete b w1 = Inr w2"
    "set_lifepoints (\<lambda>n. n - 1) p w2 = Inr w3"
    "w' = push_event (Event PlayerHit None) w3"
    unfolding ball_hits_player_def and_then_Inr_iff by blast
  then have "same_registry w w1" "same_registry w1 w2" "same_registry w2 w3"
    "same_registry w3 w'"
    by (simp_all add: set_lifepoints_same mark_toDelete_same)
  then show ?thesis by (simp add: same_registry_def)
qed

lemma apply_collision_cases:
  assumes "apply_collision c w = Inr w'"
  obtains "sakura_hits_ball (fst c) (snd c) w = Inr w'"
  | "ball_hits_wall (fst c) w = Inr w'"
  | "ball_hits_wall (snd c) w = Inr w'"
  | "ball_hits_player (fst c) (snd c) w = Inr w'"
  | "ball_hits_player (snd c) (fst c) w = Inr w'"
  | "w' = w"
  using assms unfolding apply_collision_def and_then_Inr_iff
  by (auto split: if_splits)

lemma apply_collision_same:
  assumes "apply_collision c w = Inr w'"
  shows "same_registry w w'"
  using assms
  by (rule apply_collision_cases)
    (simp_all add: sakura_hits_ball_same ball_hits_wall_same ball_hits_player_same)


lemma check_life_same:
  assumes "check_life e w = Inr w'"
  shows "same_registry w w'"
proof -
  from assms obtain ent where ent: "entity_at w e = Inr ent"
    unfolding check_life_def and_then_Inr_iff by blast
  show ?thesis
  proof (cases "hasComponent ent ''Life''")
    case False
    with assms ent show ?thesis by (simp add: check_life_def)
  next
    case True
    with assms ent obtain c l where
      c: "deref w (getComponent Life_class ''Life'' ent (objects w)) = Inr c"
      and l: "as_Life c = Inr l"
      and r: "(if fst l \<le> 0
              then and_then (store (getComponent Life_class ''Life'' ent (objects w))
                               (LifeComponent (fst l) False) w)
                     (\<lambda>w1. Inr (push_event (Event EntityDeath (Some (EntityDeathData e))) w1))
              else Inr w) = Inr w'"
      by (auto simp add: check_life_def Let_def and_then_Inr_iff)
    show ?thesis
    proof (cases "fst l \<le> 0")
      case False
      with r show ?thesis by simp
    next
      case True
      with r obtain w1 where
        st: "store (getComponent Life_class ''Life'' ent (objects w))
               (LifeComponent (fst l) False) w = Inr w1"
        and w': "w' = push_event (Event EntityDeath (Some (EntityDeathData e))) w1"
        by (auto simp add: and_then_Inr_iff)
      from c l have "\<And>a. getComponent Life_class ''Life'' ent (objects w) = Some a \<Longrightarrow>
          class_of (LifeComponent (fst l) False) = class_of (objects w ! a)"
        by (auto simp add: deref_Inr as_Life_Inr)
      with st have "same_registry w w1" by (rule store_same_registry)
      with w' show ?thesis by (simp add: same_registry_def push_event_def)
    qed
  qed
qed









section \<open>The sweep\<close>








lemmas world_eval_defs = eval_defs for_each.simps and_then_simps


section \<open>The life system\<close>


lemma life_ptr_SomeD:
  assumes "life_ptr w e = Some a"
  shows "a < length (objects w) \<and> (\<exists>n al. objects w ! a = LifeComponent n al)"
proof -
  from assms obtain ent where "getComponent Life_class ''Life'' ent (objects w) = Some a"
    by (auto simp add: life_ptr_def split: sum.splits if_splits)
  then have "a < length (objects w)" "class_of (objects w ! a) = Life_class"
    by (auto dest: getComponent_SomeD getComponent_class)
  then show ?thesis by (cases "objects w ! a") simp_all
qed



lemma checked_idem [simp]: "checked (checked l) = checked l"
  by (simp add: checked_def)







section \<open>The collision-effects system on a projectile and a ball\<close>

lemma crossing_physics:
  "PhysicSystem_update 300000 crossing_world =
     Inr (crossing_world
            \<lparr>objects := (objects crossing_world)
                 [2 := HitboxComponent (FloatRect 100 90 64 64) False,
                  7 := HitboxComponent (FloatRect 116 (- 20) 32 32) False],
             physics_collisions := [(0, 1)]\<rparr>)"
  by (simp add: crossing_world_def PhysicSystem_update_def move_entity_def pair_loop_def
      check_pair_def examine_pair_def displacement_def tentative_def intersects_def
      asSeconds_def world_eval_defs)

lemma crossing_tick:
  "run_systems normal_constants 300000 crossing_world =
     Inr (crossing_world
            \<lparr>objects := (objects crossing_world)
                 [2 := HitboxComponent (FloatRect 100 90 64 64) False,
                  7 := HitboxComponent (FloatRect 116 (- 20) 32 32) False,
                  1 := SpriteComponent (Sprite (Vector2f 100 90) (IntRect 64 0 64 64)),
                  6 := SpriteComponent (Sprite (Vector2f 116 (- 20)) (IntRect 0 0 32 32))],
             physics_collisions := [(0, 1)]\<rparr>)"
  unfolding run_systems_def crossing_physics
  by (simp add: crossing_world_def SynchronizeSystem_update_def synchronize_entity_def
      setCollisionRecord_def CollisionEffectsSystem_update_def apply_collision_def
      LifeSystem_update_def check_life_def handle_events_def change_affinity_def
      normal_constants_def seconds_def trunc_toward_zero_def
      ParticleWatcherSystem_update_def watch_particles_def cleanEntities_def toDelete_def
      world_eval_defs)

text \<open>
  C1 on the order (ball, projectile). In \<open>crossing_world\<close> the ball is registered before
  the projectile. In a tick of 0.3 seconds the ball's projected hitbox intersects the
  projectile's, so the physics system records the pair (ball, projectile); the ball
  moves, and the projectile's projected hitbox then misses it, so the pair (projectile,
  ball) is not recorded. The collision-effects system has no branch for the names
  (\<open>Ball\<close>, \<open>Sakura\<close>): at the end of the tick both entities are registered with their
  life point and an unset marker, and no event was emitted. On the same two entities the
  pair in the order (projectile, ball) zeroes both lives, sets both markers and emits one
  event with the ball's colour band and centre.
\<close>

theorem ball_sakura_order_ignored:
  "m_name (entity_objects crossing_world ! 0) = ''Ball''
   \<and> m_name (entity_objects crossing_world ! 1) = ''Sakura''
   \<and> map_sum id physics_collisions (PhysicSystem_update 300000 crossing_world) = Inr [(0, 1)]
   \<and> map_sum id
        (\<lambda>w. (m_eventQueue w, played w, m_score w, m_entities w,
              life_of w 0, life_of w 1, toDelete w 0, toDelete w 1))
        (run_systems normal_constants 300000 crossing_world)
       = Inr ([], [], 0, [0, 1], Some (1, True), Some (1, True), Inr False, Inr False)
   \<and> CollisionEffectsSystem_update (crossing_world\<lparr>collider_collisions := [(0, 1)]\<rparr>)
       = Inr crossing_world
   \<and> map_sum id
        (\<lambda>w. (m_eventQueue w, life_of w 0, life_of w 1, toDelete w 0, toDelete w 1))
        (CollisionEffectsSystem_update (crossing_world\<lparr>collider_collisions := [(1, 0)]\<rparr>))
       = Inr ([Event ColoredBallShot (Some (ColoredBallShotData Color_Blue (Vector2f 132 32)))],
              Some (0, True), Some (0, True), Inr True, Inr True)"
  unfolding crossing_tick crossing_physics
  by (simp add: crossing_world_def CollisionEffectsSystem_update_def apply_collision_def
      sakura_hits_ball_def set_lifepoints_def mark_toDelete_def push_event_def
      ball_color_def ball_center_def getGlobalBounds_def
      life_of_def life_ptr_def toDelete_def world_eval_defs)

section \<open>Lookups that cannot be null\<close>

lemma class_name_inj: "class_name A = class_name B \<Longrightarrow> A = B"
  by (cases A; cases B) simp_all

lemma typed_lookup:
  assumes "typed_store w" and "e \<in> set (m_entities w)"
    and "hasComponent (entity_objects w ! e) (class_name T)"
  shows "\<exists>a. getComponent T (class_name T) (entity_objects w ! e) (objects w) = Some a
            \<and> a < length (objects w) \<and> class_of (objects w ! a) = T"
proof -
  from assms(3) obtain a where
    a: "map_of (components_map (entity_objects w ! e)) (class_name T) = Some a"
    by (auto simp add: hasComponent_def)
  then have "(class_name T, a) \<in> set (components_map (entity_objects w ! e))"
    by (rule map_of_SomeD)
  with assms(1,2) have "typed_entry (map class_of (objects w)) (class_name T, a)"
    by (auto simp add: typed_store_def list_all_iff)
  then have "a < length (objects w)" "class_of (objects w ! a) = T"
    by (auto simp add: typed_entry_def dest: class_name_inj)
  with a show ?thesis
    by (simp add: getComponent_def dynamic_cast_def derived_from_def)
qed

lemma typed_store_entity:
  "typed_store w \<Longrightarrow> e \<in> set (m_entities w) \<Longrightarrow> entity_at w e = Inr (entity_objects w ! e)"
  by (auto simp add: typed_store_def list_all_iff entity_at_def)

lemma typed_store_same: "same_registry w w' \<Longrightarrow> typed_store w' = typed_store w"
  by (simp add: typed_store_def same_registry_def)

lemma has_class_same: "same_registry w w' \<Longrightarrow> has_class w' T e = has_class w T e"
  using getComponent_cong [of "objects w'" "objects w"]
  by (simp add: has_class_def same_registry_def)

lemma gameplay_entity_ok_same:
  "same_registry w w' \<Longrightarrow> gameplay_entity_ok w' e = gameplay_entity_ok w e"
  using has_class_same [of w w']
  by (simp add: gameplay_entity_ok_def same_registry_def)

lemma class_Life: "class_of c = Life_class \<Longrightarrow> \<exists>n al. c = LifeComponent n al"
  by (cases c) simp_all

lemma class_Hitbox: "class_of c = Hitbox_class \<Longrightarrow> \<exists>r b. c = HitboxComponent r b"
  by (cases c) simp_all

lemma class_Movement: "class_of c = Movement_class \<Longrightarrow> \<exists>v. c = MovementComponent v"
  by (cases c) simp_all

lemma class_Sprite: "class_of c = Sprite_class \<Longrightarrow> \<exists>s. c = SpriteComponent s"
  by (cases c) simp_all

lemma has_classD:
  assumes "has_class w T e" and "T \<noteq> Component_class"
  shows "\<exists>a. entity_at w e = Inr (entity_objects w ! e)
            \<and> getComponent T (class_name T) (entity_objects w ! e) (objects w) = Some a
            \<and> a < length (objects w) \<and> class_of (objects w ! a) = T"
  using assms
  by (auto simp add: has_class_def entity_at_def dest: getComponent_SomeD getComponent_class)

lemma set_lifepoints_total:
  assumes "has_class w Life_class e"
  shows "\<exists>w'. set_lifepoints f e w = Inr w'"
proof -
  from has_classD [OF assms] obtain a where
    "entity_at w e = Inr (entity_objects w ! e)"
    "getComponent Life_class ''Life'' (entity_objects w ! e) (objects w) = Some a"
    "a < length (objects w)" "class_of (objects w ! a) = Life_class"
    by auto
  moreover then obtain n al where "objects w ! a = LifeComponent n al"
    using class_Life by blast
  ultimately show ?thesis
    by (simp add: set_lifepoints_def deref_def store_def)
qed

lemma mark_toDelete_total:
  assumes "has_class w DeletionMarker_class e"
  shows "\<exists>w'. mark_toDelete e w = Inr w'"
proof -
  from has_classD [OF assms] obtain a where
    "entity_at w e = Inr (entity_objects w ! e)"
    "getComponent DeletionMarker_class ''DeletionMarker'' (entity_objects w ! e) (objects w)
       = Some a"
    "a < length (objects w)"
    by auto
  then show ?thesis
    by (simp add: mark_toDelete_def store_def)
qed

lemma sprite_total:
  assumes "has_class w Sprite_class e"
  shows "\<exists>s. and_then (deref w (getComponent Sprite_class ''Sprite'' (entity_objects w ! e)
                                     (objects w))) as_Sprite = Inr s"
proof -
  from has_classD [OF assms] obtain a where
    "getComponent Sprite_class ''Sprite'' (entity_objects w ! e) (objects w) = Some a"
    "a < length (objects w)" "class_of (objects w ! a) = Sprite_class"
    by auto
  moreover then obtain s where "objects w ! a = SpriteComponent s"
    using class_Sprite by blast
  ultimately show ?thesis by (simp add: deref_def)
qed

lemma ball_hits_wall_total:
  assumes "has_class w Life_class b" "has_class w DeletionMarker_class b"
  shows "\<exists>w'. ball_hits_wall b w = Inr w'"
proof -
  from set_lifepoints_total [OF assms(1)] obtain w1 where
    1: "set_lifepoints (\<lambda>_. 0) b w = Inr w1" by blast
  from assms(2) have "has_class w1 DeletionMarker_class b"
    by (simp add: has_class_same [OF set_lifepoints_same [OF 1]])
  from mark_toDelete_total [OF this] 1 show ?thesis
    by (simp add: ball_hits_wall_def)
qed

lemma ball_hits_player_total:
  assumes "has_class w Life_class b" "has_class w DeletionMarker_class b"
    "has_class w Life_class p"
  shows "\<exists>w'. ball_hits_player b p w = Inr w'"
proof -
  from set_lifepoints_total [OF assms(1)] obtain w1 where
    1: "set_lifepoints (\<lambda>_. 0) b w = Inr w1" by blast
  note s1 = set_lifepoints_same [OF 1]
  from assms(2) have "has_class w1 DeletionMarker_class b"
    by (simp add: has_class_same [OF s1])
  from mark_toDelete_total [OF this] obtain w2 where 2: "mark_toDelete b w1 = Inr w2" by blast
  note s2 = mark_toDelete_same [OF 2]
  from assms(3) have "has_class w2 Life_class p"
    by (simp add: has_class_same [OF s1] has_class_same [OF s2])
  from set_lifepoints_total [OF this] obtain w3 where
    3: "set_lifepoints (\<lambda>n. n - 1) p w2 = Inr w3" by blast
  from 1 2 3 show ?thesis by (simp add: ball_hits_player_def)
qed

lemma sakura_hits_ball_total:
  assumes "has_class w Life_class b" "has_class w Life_class s"
    "has_class w DeletionMarker_class s" "has_class w DeletionMarker_class b"
    "has_class w Sprite_class b"
  shows "\<exists>w'. sakura_hits_ball s b w = Inr w'"
proof -
  from set_lifepoints_total [OF assms(1)] obtain w1 where
    1: "set_lifepoints (\<lambda>_. 0) b w = Inr w1" by blast
  note s1 = set_lifepoints_same [OF 1]
  from assms(2) have "has_class w1 Life_class s" by (simp add: has_class_same [OF s1])
  from set_lifepoints_total [OF this] obtain w2 where
    2: "set_lifepoints (\<lambda>_. 0) s w1 = Inr w2" by blast
  note s2 = same_registry_trans [OF s1 set_lifepoints_same [OF 2]]
  from assms(3) have "has_class w2 DeletionMarker_class s" by (simp add: has_class_same [OF s2])
  from mark_toDelete_total [OF this] obtain w3 where 3: "mark_toDelete s w2 = Inr w3" by blast
  note s3 = same_registry_trans [OF s2 mark_toDelete_same [OF 3]]
  from assms(4) have "has_class w3 DeletionMarker_class b" by (simp add: has_class_same [OF s3])
  from mark_toDelete_total [OF this] obtain w4 where 4: "mark_toDelete b w3 = Inr w4" by blast
  note s4 = same_registry_trans [OF s3 mark_toDelete_same [OF 4]]
  from assms(5) have h: "has_class w4 Sprite_class b" by (simp add: has_class_same [OF s4])
  from has_classD [OF h] have e: "entity_at w4 b = Inr (entity_objects w4 ! b)" by auto
  from sprite_total [OF h] obtain sp where
    "and_then (deref w4 (getComponent Sprite_class ''Sprite'' (entity_objects w4 ! b)
                                     (objects w4))) as_Sprite = Inr sp"
    by blast
  with 1 2 3 4 e show ?thesis by (simp add: sakura_hits_ball_def)
qed

lemma apply_collision_total:
  assumes "gameplay_entity_ok w (fst c)" "gameplay_entity_ok w (snd c)"
  shows "\<exists>w'. apply_collision c w = Inr w'"
proof -
  from assms have e: "entity_at w (fst c) = Inr (entity_objects w ! fst c)"
    "entity_at w (snd c) = Inr (entity_objects w ! snd c)"
    by (simp_all add: gameplay_entity_ok_def entity_at_def)
  let ?first = "entity_objects w ! fst c" and ?second = "entity_objects w ! snd c"
  consider (sb) "m_name ?first = ''Sakura''" "m_name ?second = ''Ball''"
    | (bw) "m_name ?first = ''Ball''" "m_name ?second = ''Box''"
    | (wb) "m_name ?first = ''Box''" "m_name ?second = ''Ball''"
    | (bp) "m_name ?first = ''Ball''" "m_name ?second = ''Player''"
    | (pb) "m_name ?first = ''Player''" "m_name ?second = ''Ball''"
    | (other) "\<not> (m_name ?first = ''Sakura'' \<and> m_name ?second = ''Ball'')"
        "\<not> (m_name ?first = ''Ball'' \<and> m_name ?second = ''Box'')"
        "\<not> (m_name ?first = ''Box'' \<and> m_name ?second = ''Ball'')"
        "\<not> (m_name ?first = ''Ball'' \<and> m_name ?second = ''Player'')"
        "\<not> (m_name ?first = ''Player'' \<and> m_name ?second = ''Ball'')"
    by blast
  then show ?thesis
  proof cases
    case sb
    with assms have "\<exists>w'. sakura_hits_ball (fst c) (snd c) w = Inr w'"
      by (intro sakura_hits_ball_total) (simp_all add: gameplay_entity_ok_def)
    with sb e show ?thesis by (simp add: apply_collision_def)
  next
    case bw
    with assms have "\<exists>w'. ball_hits_wall (fst c) w = Inr w'"
      by (intro ball_hits_wall_total) (simp_all add: gameplay_entity_ok_def)
    with bw e show ?thesis by (simp add: apply_collision_def)
  next
    case wb
    with assms have "\<exists>w'. ball_hits_wall (snd c) w = Inr w'"
      by (intro ball_hits_wall_total) (simp_all add: gameplay_entity_ok_def)
    with wb e show ?thesis by (simp add: apply_collision_def)
  next
    case bp
    with assms have "\<exists>w'. ball_hits_player (fst c) (snd c) w = Inr w'"
      by (intro ball_hits_player_total) (simp_all add: gameplay_entity_ok_def)
    with bp e show ?thesis by (simp add: apply_collision_def)
  next
    case pb
    with assms have "\<exists>w'. ball_hits_player (snd c) (fst c) w = Inr w'"
      by (intro ball_hits_player_total) (simp_all add: gameplay_entity_ok_def)
    with pb e show ?thesis by (simp add: apply_collision_def)
  next
    case other
    with e show ?thesis by (auto simp add: apply_collision_def)
  qed
qed

lemma for_each_inv:
  assumes step: "\<And>x s. x \<in> set xs \<Longrightarrow> I s \<Longrightarrow> case_sum A I (body x s)"
    and init: "I s"
  shows "case_sum A I (for_each body xs s)"
  using step init
proof (induction xs arbitrary: s)
  case Nil
  then show ?case by simp
next
  case (Cons x xs)
  have now: "case_sum A I (body x s)"
    by (rule Cons.prems(1)) (simp_all add: Cons.prems(2))
  show ?case
  proof (cases "body x s")
    case (Inl f)
    with now show ?thesis by simp
  next
    case (Inr s1)
    with now have "I s1" by simp
    have "case_sum A I (for_each body xs s1)"
    proof (rule Cons.IH)
      fix y t assume "y \<in> set xs" "I t"
      then show "case_sum A I (body y t)" by (intro Cons.prems(1)) simp_all
    qed (rule \<open>I s1\<close>)
    with Inr show ?thesis by simp
  qed
qed

lemma collision_loop_total:
  assumes "list_all (\<lambda>c. gameplay_entity_ok w (fst c) \<and> gameplay_entity_ok w (snd c)) cs"
  shows "case_sum (\<lambda>_. False) (same_registry w) (for_each apply_collision cs w)"
proof (rule for_each_inv)
  show "same_registry w w" by simp
next
  fix c s assume c: "c \<in> set cs" and s: "same_registry w s"
  from assms c have "gameplay_entity_ok w (fst c)" "gameplay_entity_ok w (snd c)"
    by (auto simp add: list_all_iff)
  with s have "gameplay_entity_ok s (fst c)" "gameplay_entity_ok s (snd c)"
    by (simp_all add: gameplay_entity_ok_same)
  from apply_collision_total [OF this] obtain s' where s': "apply_collision c s = Inr s'"
    by blast
  from s apply_collision_same [OF s'] have "same_registry w s'"
    by (rule same_registry_trans)
  with s' show "case_sum (\<lambda>_. False) (same_registry w) (apply_collision c s)" by simp
qed

lemma CollisionEffectsSystem_total:
  assumes "record_ok w"
  shows "\<not> isl (CollisionEffectsSystem_update w)"
proof -
  from assms have "case_sum (\<lambda>_. False) (same_registry w)
                     (for_each apply_collision (collider_collisions w) w)"
    unfolding record_ok_def by (rule collision_loop_total)
  then show ?thesis
    by (cases "for_each apply_collision (collider_collisions w) w")
      (simp_all add: CollisionEffectsSystem_update_def)
qed

lemma case_sum_mono:
  "case_sum A P r \<Longrightarrow> (\<And>s. P s \<Longrightarrow> Q s) \<Longrightarrow> case_sum A Q r"
  by (cases r) simp_all

lemma typed_deref:
  assumes "typed_store w" and "e \<in> set (m_entities w)"
    and "hasComponent (entity_objects w ! e) (class_name T)"
  obtains a where "getComponent T (class_name T) (entity_objects w ! e) (objects w) = Some a"
    and "deref w (Some a) = Inr (objects w ! a)" and "a < length (objects w)"
    and "class_of (objects w ! a) = T"
  using typed_lookup [OF assms] by (auto simp add: deref_def)

lemma check_life_total:
  assumes "typed_store w" and "e \<in> set (m_entities w)"
  shows "\<exists>w'. check_life e w = Inr w'"
proof (cases "hasComponent (entity_objects w ! e) ''Life''")
  case False
  with typed_store_entity [OF assms] show ?thesis by (simp add: check_life_def)
next
  case True
  then have "hasComponent (entity_objects w ! e) (class_name Life_class)" by simp
  from typed_deref [OF assms this] obtain a where
    a: "getComponent Life_class ''Life'' (entity_objects w ! e) (objects w) = Some a"
    "deref w (Some a) = Inr (objects w ! a)" "a < length (objects w)"
    "class_of (objects w ! a) = Life_class"
    by auto
  then obtain n al where "objects w ! a = LifeComponent n al"
    using class_Life by blast
  with a True typed_store_entity [OF assms] show ?thesis
    by (simp add: check_life_def store_def)
qed

lemma LifeSystem_total:
  assumes "typed_store w"
  shows "\<not> isl (LifeSystem_update w)"
proof -
  have "case_sum (\<lambda>_. False) (same_registry w) (for_each check_life (m_entities w) w)"
  proof (rule for_each_inv)
    show "same_registry w w" by simp
  next
    fix e s assume e: "e \<in> set (m_entities w)" and s: "same_registry w s"
    from s assms have "typed_store s" by (simp add: typed_store_same)
    moreover from e s have "e \<in> set (m_entities s)" by (simp add: same_registry_def)
    ultimately obtain s' where s': "check_life e s = Inr s'"
      using check_life_total by blast
    from s check_life_same [OF s'] have "same_registry w s'" by (rule same_registry_trans)
    with s' show "case_sum (\<lambda>_. False) (same_registry w) (check_life e s)" by simp
  qed
  then show ?thesis
    by (cases "for_each check_life (m_entities w) w") (simp_all add: LifeSystem_update_def)
qed

lemma synchronize_entity_total:
  assumes "typed_store w" and "e \<in> set (m_entities w)"
  shows "\<exists>w'. synchronize_entity e w = Inr w' \<and> same_registry w w'"
proof (cases "hasComponent (entity_objects w ! e) ''Hitbox''
              \<and> hasComponent (entity_objects w ! e) ''Sprite''")
  case False
  with typed_store_entity [OF assms] show ?thesis
    by (auto simp add: synchronize_entity_def)
next
  case True
  then have "hasComponent (entity_objects w ! e) (class_name Hitbox_class)"
    "hasComponent (entity_objects w ! e) (class_name Sprite_class)"
    by simp_all
  from typed_deref [OF assms this(1)] typed_deref [OF assms this(2)] obtain a b where
    a: "getComponent Hitbox_class ''Hitbox'' (entity_objects w ! e) (objects w) = Some a"
    "a < length (objects w)" "class_of (objects w ! a) = Hitbox_class"
    and b: "getComponent Sprite_class ''Sprite'' (entity_objects w ! e) (objects w) = Some b"
    "b < length (objects w)" "class_of (objects w ! b) = Sprite_class"
    by (metis class_name.simps(3) class_name.simps(4))
  from a b obtain r bl sp where "objects w ! a = HitboxComponent r bl"
    "objects w ! b = SpriteComponent sp"
    using class_Hitbox class_Sprite by blast
  with a b True typed_store_entity [OF assms] show ?thesis
    by (simp add: synchronize_entity_def deref_def store_def same_registry_def
        update_same_class)
qed

lemma SynchronizeSystem_total:
  assumes "typed_store w"
  shows "\<not> isl (SynchronizeSystem_update w)"
proof -
  have "case_sum (\<lambda>_. False) (same_registry w) (for_each synchronize_entity (m_entities w) w)"
  proof (rule for_each_inv)
    show "same_registry w w" by simp
  next
    fix e s assume e: "e \<in> set (m_entities w)" and s: "same_registry w s"
    from s assms have "typed_store s" by (simp add: typed_store_same)
    moreover from e s have "e \<in> set (m_entities s)" by (simp add: same_registry_def)
    ultimately obtain s' where s': "synchronize_entity e s = Inr s'" "same_registry s s'"
      using synchronize_entity_total by blast
    from s s'(2) have "same_registry w s'" by (rule same_registry_trans)
    with s' show "case_sum (\<lambda>_. False) (same_registry w) (synchronize_entity e s)" by simp
  qed
  then show ?thesis
    by (cases "for_each synchronize_entity (m_entities w) w")
      (simp_all add: SynchronizeSystem_update_def)
qed

lemma examine_pair_cases:
  "examine_pair dt fh sh v = Inl NotFinite \<or> (\<exists>r. examine_pair dt fh sh v = Inr r)"
  by (simp add: examine_pair_def float_div_def Let_def)

lemma check_pair_ok:
  assumes ts: "typed_store w" and e1: "fstE \<in> set (m_entities w)"
    and e2: "sndE \<in> set (m_entities w)"
    and hp: "hp < length (objects w)" "class_of (objects w ! hp) = Hitbox_class"
    and mp: "mp < length (objects w)" "class_of (objects w ! mp) = Movement_class"
  shows "case_sum (\<lambda>f. f \<noteq> NullDereference) (same_registry w)
           (check_pair elapsed fstE (Some hp) (Some mp) sndE w)"
proof -
  note ent = typed_store_entity [OF ts e1] typed_store_entity [OF ts e2]
  consider (skip) "fstE = sndE \<or> \<not> hasComponent (entity_objects w ! sndE) ''Hitbox''
                     \<or> \<not> hasComponent (entity_objects w ! fstE) ''Movement''"
    | (go) "fstE \<noteq> sndE" "hasComponent (entity_objects w ! sndE) ''Hitbox''"
        "hasComponent (entity_objects w ! fstE) ''Movement''"
    by blast
  then show ?thesis
  proof cases
    case skip
    with ent show ?thesis by (auto simp add: check_pair_def)
  next
    case go
    from go(2) have "hasComponent (entity_objects w ! sndE) (class_name Hitbox_class)" by simp
    from typed_deref [OF ts e2 this] obtain a where
      a: "getComponent Hitbox_class ''Hitbox'' (entity_objects w ! sndE) (objects w) = Some a"
      "a < length (objects w)" "class_of (objects w ! a) = Hitbox_class"
      by (metis class_name.simps(3))
    from hp mp a obtain r1 b1 v r2 b2 where
      obj: "objects w ! hp = HitboxComponent r1 b1" "objects w ! mp = MovementComponent v"
      "objects w ! a = HitboxComponent r2 b2"
      using class_Hitbox class_Movement by metis
    let ?w1 = "\<lambda>recorded. if recorded
                 then w\<lparr>physics_collisions := physics_collisions w @ [(fstE, sndE)]\<rparr> else w"
    have red: "check_pair elapsed fstE (Some hp) (Some mp) sndE w =
      and_then (examine_pair (asSeconds elapsed) (r1, b1) (r2, b2) v) (\<lambda>(v', recorded).
        if b1 \<and> b2 then store (Some mp) (MovementComponent v') (?w1 recorded)
        else Inr (?w1 recorded))"
      using go ent a hp mp obj by (simp add: check_pair_def deref_def Let_def)
    from examine_pair_cases [of "asSeconds elapsed" "(r1, b1)" "(r2, b2)" v]
    show ?thesis
    proof
      assume "examine_pair (asSeconds elapsed) (r1, b1) (r2, b2) v = Inl NotFinite"
      with red show ?thesis by simp
    next
      assume "\<exists>r. examine_pair (asSeconds elapsed) (r1, b1) (r2, b2) v = Inr r"
      then obtain v' recorded where
        "examine_pair (asSeconds elapsed) (r1, b1) (r2, b2) v = Inr (v', recorded)"
        by auto
      with red mp obj show ?thesis
        by (simp add: store_def same_registry_def update_same_class)
    qed
  qed
qed

lemma move_entity_ok:
  assumes ts: "typed_store w" and e1: "fstE \<in> set (m_entities w)"
  shows "case_sum (\<lambda>f. f \<noteq> NullDereference) (same_registry w) (move_entity elapsed fstE w)"
proof (cases "hasComponent (entity_objects w ! fstE) ''Hitbox''
              \<and> hasComponent (entity_objects w ! fstE) ''Movement''")
  case False
  with typed_store_entity [OF ts e1] show ?thesis
    by (auto simp add: move_entity_def)
next
  case True
  then have "hasComponent (entity_objects w ! fstE) (class_name Hitbox_class)"
    "hasComponent (entity_objects w ! fstE) (class_name Movement_class)"
    by simp_all
  from typed_deref [OF ts e1 this(1)] typed_deref [OF ts e1 this(2)] obtain hp mp where
    hp: "getComponent Hitbox_class ''Hitbox'' (entity_objects w ! fstE) (objects w) = Some hp"
    "hp < length (objects w)" "class_of (objects w ! hp) = Hitbox_class"
    and mp: "getComponent Movement_class ''Movement'' (entity_objects w ! fstE) (objects w)
               = Some mp"
    "mp < length (objects w)" "class_of (objects w ! mp) = Movement_class"
    by (metis class_name.simps(3) class_name.simps(5))
  have loop: "case_sum (\<lambda>f. f \<noteq> NullDereference) (same_registry w)
                (pair_loop elapsed fstE (Some hp) (Some mp) (m_entities w) w)"
    unfolding pair_loop_def
  proof (rule for_each_inv)
    show "same_registry w w" by simp
  next
    fix sndE s assume e2: "sndE \<in> set (m_entities w)" and s: "same_registry w s"
    from s ts have ts': "typed_store s" by (simp add: typed_store_same)
    from s have m: "m_entities s = m_entities w"
      and c: "map class_of (objects s) = map class_of (objects w)"
      by (simp_all add: same_registry_def)
    from c hp mp have t: "hp < length (objects s)" "class_of (objects s ! hp) = Hitbox_class"
      "mp < length (objects s)" "class_of (objects s ! mp) = Movement_class"
      using map_eq_length [OF c] map_eq_nth [OF c, of hp] map_eq_nth [OF c, of mp]
      by simp_all
    have "case_sum (\<lambda>f. f \<noteq> NullDereference) (same_registry s)
            (check_pair elapsed fstE (Some hp) (Some mp) sndE s)"
      using ts' e1 e2 t by (intro check_pair_ok) (simp_all add: m)
    then show "case_sum (\<lambda>f. f \<noteq> NullDereference) (same_registry w)
            (check_pair elapsed fstE (Some hp) (Some mp) sndE s)"
      by (rule case_sum_mono) (rule same_registry_trans [OF s])
  qed
  have red: "move_entity elapsed fstE w =
      and_then (pair_loop elapsed fstE (Some hp) (Some mp) (m_entities w) w) (\<lambda>w1.
        and_then (and_then (deref w1 (Some hp)) as_Hitbox) (\<lambda>fh.
        and_then (and_then (deref w1 (Some mp)) as_Movement) (\<lambda>v.
          store (Some hp)
            (HitboxComponent (tentative (fst fh) v (asSeconds elapsed)) (snd fh)) w1)))"
    using True typed_store_entity [OF ts e1] hp mp by (simp add: move_entity_def Let_def)
  show ?thesis
  proof (cases "pair_loop elapsed fstE (Some hp) (Some mp) (m_entities w) w")
    case (Inl f)
    with loop red show ?thesis by simp
  next
    case (Inr w1)
    with loop have s: "same_registry w w1" by simp
    then have c: "map class_of (objects w1) = map class_of (objects w)"
      by (simp add: same_registry_def)
    from c hp mp have t: "hp < length (objects w1)" "class_of (objects w1 ! hp) = Hitbox_class"
      "mp < length (objects w1)" "class_of (objects w1 ! mp) = Movement_class"
      using map_eq_length [OF c] map_eq_nth [OF c, of hp] map_eq_nth [OF c, of mp]
      by simp_all
    then obtain r b v where "objects w1 ! hp = HitboxComponent r b"
      "objects w1 ! mp = MovementComponent v"
      using class_Hitbox class_Movement by metis
    with t have "move_entity elapsed fstE w =
        Inr (w1\<lparr>objects := (objects w1)
                  [hp := HitboxComponent (tentative r v (asSeconds elapsed)) b]\<rparr>)"
      unfolding red Inr by (simp add: deref_def store_def)
    moreover have "same_registry w1
        (w1\<lparr>objects := (objects w1)
                  [hp := HitboxComponent (tentative r v (asSeconds elapsed)) b]\<rparr>)"
      using t by (simp add: same_registry_def update_same_class)
    ultimately show ?thesis using s by (simp add: same_registry_trans [OF s])
  qed
qed

lemma PhysicSystem_no_null:
  assumes "typed_store w"
  shows "case_sum (\<lambda>f. f \<noteq> NullDereference) (\<lambda>_. True) (PhysicSystem_update elapsed w)"
proof -
  let ?w0 = "w\<lparr>physics_collisions := []\<rparr>"
  from assms have ts: "typed_store ?w0" by (simp add: typed_store_def)
  have "case_sum (\<lambda>f. f \<noteq> NullDereference) (same_registry ?w0)
          (for_each (move_entity elapsed) (m_entities ?w0) ?w0)"
  proof (rule for_each_inv)
    show "same_registry ?w0 ?w0" by simp
  next
    fix e s assume e: "e \<in> set (m_entities ?w0)" and s: "same_registry ?w0 s"
    from s ts have "typed_store s" by (simp add: typed_store_same)
    moreover from e s have "e \<in> set (m_entities s)" by (simp add: same_registry_def)
    ultimately have "case_sum (\<lambda>f. f \<noteq> NullDereference) (same_registry s)
                       (move_entity elapsed e s)"
      by (rule move_entity_ok)
    then show "case_sum (\<lambda>f. f \<noteq> NullDereference) (same_registry ?w0)
                       (move_entity elapsed e s)"
      by (rule case_sum_mono) (rule same_registry_trans [OF s])
  qed
  then have "case_sum (\<lambda>f. f \<noteq> NullDereference) (same_registry ?w0)
          (for_each (move_entity elapsed) (m_entities w) ?w0)"
    by simp
  then show ?thesis
    unfolding PhysicSystem_update_def by (rule case_sum_mono) simp
qed

lemma class_Particle:
  "class_of c = Particle_class \<Longrightarrow> \<exists>col ctr ps vs t. c = ParticleComponent col ctr ps vs t"
  by (cases c) simp_all

lemma update_particle_fault:
  "update_particle elapsed p v = Inl f \<Longrightarrow> f \<noteq> NullDereference"
  by (auto simp add: update_particle_def static_cast_Uint8_def Let_def split: if_splits)

lemma update_particles_fault:
  "update_particles elapsed ps vs = Inl f \<Longrightarrow> f \<noteq> NullDereference"
proof (induction elapsed ps vs arbitrary: f rule: update_particles.induct)
  case (1 elapsed vs)
  then show ?case by simp
next
  case (2 elapsed p ps)
  then show ?case by simp
next
  case (3 elapsed p ps v vs)
  show ?case
  proof (cases "update_particle elapsed p v")
    case (Inl g)
    with "3.prems" update_particle_fault [OF Inl] show ?thesis by simp
  next
    case (Inr pv)
    show ?thesis
    proof (cases "update_particles elapsed ps vs")
      case (Inl g)
      with Inr "3.prems" "3.IH" [OF Inl] show ?thesis by simp
    next
      case (Inr rest)
      with \<open>update_particle elapsed p v = Inr pv\<close> "3.prems" show ?thesis by simp
    qed
  qed
qed

lemma watch_particles_ok:
  assumes ts: "typed_store w" and e: "e \<in> set (m_entities w)"
    and dm: "has_class w DeletionMarker_class e"
  shows "case_sum (\<lambda>f. f \<noteq> NullDereference) (same_registry w) (watch_particles elapsed e w)"
proof (cases "hasComponent (entity_objects w ! e) ''Particle''")
  case False
  with typed_store_entity [OF ts e] show ?thesis by (simp add: watch_particles_def)
next
  case True
  then have "hasComponent (entity_objects w ! e) (class_name Particle_class)" by simp
  from typed_deref [OF ts e this] obtain a where
    a: "getComponent Particle_class ''Particle'' (entity_objects w ! e) (objects w) = Some a"
    "a < length (objects w)" "class_of (objects w ! a) = Particle_class"
    by (metis class_name.simps(8))
  then obtain col ctr ps vs t where obj: "objects w ! a = ParticleComponent col ctr ps vs t"
    using class_Particle by blast
  let ?w1 = "w\<lparr>objects := (objects w)[a := ParticleComponent col ctr ps vs (t + elapsed)]\<rparr>"
  have s1: "same_registry w ?w1"
    using a by (simp add: same_registry_def update_same_class)
  have red: "watch_particles elapsed e w =
      (if t + elapsed \<ge> seconds 2 then mark_toDelete e ?w1
       else and_then (update_particles elapsed ps vs) (\<lambda>(ps', vs').
              store (Some a) (ParticleComponent col ctr ps' vs' (t + elapsed)) ?w1))"
    using True typed_store_entity [OF ts e] a obj
    by (simp add: watch_particles_def deref_def store_def Let_def)
  show ?thesis
  proof (cases "t + elapsed \<ge> seconds 2")
    case True
    from dm have "has_class ?w1 DeletionMarker_class e" by (simp add: has_class_same [OF s1])
    from mark_toDelete_total [OF this] obtain w' where w': "mark_toDelete e ?w1 = Inr w'"
      by blast
    from s1 mark_toDelete_same [OF w'] have "same_registry w w'" by (rule same_registry_trans)
    with True w' show ?thesis unfolding red by simp
  next
    case False
    show ?thesis
    proof (cases "update_particles elapsed ps vs")
      case (Inl f)
      with False update_particles_fault [OF Inl] show ?thesis unfolding red by simp
    next
      case (Inr r)
      obtain ps' vs' where r: "r = (ps', vs')" by (cases r)
      have "same_registry ?w1
              (?w1\<lparr>objects := (objects ?w1)
                     [a := ParticleComponent col ctr ps' vs' (t + elapsed)]\<rparr>)"
        using a by (simp add: same_registry_def update_same_class)
      with s1 have "same_registry w
              (?w1\<lparr>objects := (objects ?w1)
                     [a := ParticleComponent col ctr ps' vs' (t + elapsed)]\<rparr>)"
        by (rule same_registry_trans)
      with False Inr r a show ?thesis unfolding red by (simp add: store_def)
    qed
  qed
qed

lemma ParticleWatcherSystem_no_null:
  assumes ts: "typed_store w" and mk: "markers_present w"
  shows "case_sum (\<lambda>f. f \<noteq> NullDereference) (\<lambda>_. True)
           (ParticleWatcherSystem_update elapsed w)"
proof -
  have "case_sum (\<lambda>f. f \<noteq> NullDereference) (same_registry w)
          (for_each (watch_particles elapsed) (m_entities w) w)"
  proof (rule for_each_inv)
    show "same_registry w w" by simp
  next
    fix e s assume e: "e \<in> set (m_entities w)" and s: "same_registry w s"
    from s ts have "typed_store s" by (simp add: typed_store_same)
    moreover from e s have "e \<in> set (m_entities s)" by (simp add: same_registry_def)
    moreover from mk e have "has_class w DeletionMarker_class e"
      by (simp add: markers_present_def list_all_iff)
    then have "has_class s DeletionMarker_class e" by (simp add: has_class_same [OF s])
    ultimately have "case_sum (\<lambda>f. f \<noteq> NullDereference) (same_registry s)
                       (watch_particles elapsed e s)"
      by (rule watch_particles_ok)
    then show "case_sum (\<lambda>f. f \<noteq> NullDereference) (same_registry w)
                       (watch_particles elapsed e s)"
      by (rule case_sum_mono) (rule same_registry_trans [OF s])
  qed
  then show ?thesis
    unfolding ParticleWatcherSystem_update_def by (rule case_sum_mono) simp
qed

end
